theory Spec2Isabelle
  imports Main
begin

section \<open>Python values and the symbolic expressions of the query builder\<close>

text \<open>
  The filter values that reach \<open>parse_filters\<close> are arbitrary Python objects. The
  code inspects them only through \<open>isinstance\<close> (tuple, list, set, dict), through
  \<open>.items()\<close>, subscripting and argument unpacking, so the model keeps the
  constructors these tests tell apart. A dict is an association list in insertion
  order with string keys (keyword arguments and operator names are strings).
\<close>

datatype pyval =
    VNone
  | VBool bool
  | VInt int
  | VStr string
  | VTuple "pyval list"
  | VList "pyval list"
  | VSet "pyval list"
  | VDict "(string \<times> pyval) list"

text \<open>
  The expression objects belong to the query-building library. The expression a builder
  call \<open>col.__gt__(v)\<close> returns is recorded as the node \<open>Call ''__gt__'' col [v]\<close>:
  the method name, the receiver and the positional arguments. \<open>and_(*fs)\<close> and
  \<open>or_(*fs)\<close> are the nodes \<open>SqlAnd fs\<close> and \<open>SqlOr fs\<close>.
\<close>

datatype expr =
    Column string
  | Call string expr "pyval list"
  | SqlAnd "expr list"
  | SqlOr "expr list"

datatype error =
    SelectOperatorError string
  | ModelColumnError string
  | ColumnSortError string
  | MultipleResultsError string int
  | ValueError string
  | KeyError string
  | TypeError
  | AttributeError
  | ArgumentError

datatype warning = SyntaxWarning string

text \<open>An entity type: \<open>getattr(model, name, None)\<close>.\<close>

type_synonym model = "string \<Rightarrow> expr option"

text \<open>
  A builder call can raise inside the library, which checks the operands it is given (a
  comparison such as \<open>col > None\<close> raises \<open>ArgumentError\<close>). The library is a
  parameter of the compiler: for a method, a receiver and the positional arguments it says
  which error the call raises, or \<open>None\<close> when the call returns its expression.
\<close>

type_synonym library = "string \<Rightarrow> expr \<Rightarrow> pyval list \<Rightarrow> error option"

section \<open>Python string and container primitives used by the code\<close>

text \<open>\<open>sep in s\<close> for strings.\<close>

fun py_contains :: "string \<Rightarrow> string \<Rightarrow> bool" where
  "py_contains sep [] = (sep = [])"
| "py_contains sep (c # cs) = (take (length sep) (c # cs) = sep \<or> py_contains sep cs)"

text \<open>\<open>s.rfind(sep)\<close>, with \<open>None\<close> for Python's \<open>-1\<close>.\<close>

fun py_rfind :: "string \<Rightarrow> string \<Rightarrow> nat option" where
  "py_rfind sep [] = (if sep = [] then Some 0 else None)"
| "py_rfind sep (c # cs) =
     (case py_rfind sep cs of
        Some i \<Rightarrow> Some (Suc i)
      | None \<Rightarrow> (if take (length sep) (c # cs) = sep then Some 0 else None))"

text \<open>\<open>s.rsplit(sep, 1)\<close> for a non-empty separator.\<close>

definition py_rsplit1 :: "string \<Rightarrow> string \<Rightarrow> string list" where
  "py_rsplit1 sep s =
     (case py_rfind sep s of
        None \<Rightarrow> [s]
      | Some i \<Rightarrow> [take i s, drop (i + length sep) s])"

text \<open>\<open>sep.join(xs)\<close>.\<close>

fun py_join :: "string \<Rightarrow> string list \<Rightarrow> string" where
  "py_join sep [] = []"
| "py_join sep [x] = x"
| "py_join sep (x # y # ys) = x @ sep @ py_join sep (y # ys)"

text \<open>\<open>isinstance(value, (tuple, list, set))\<close> and \<open>isinstance(value, dict)\<close>.\<close>

fun is_tuple_list_set :: "pyval \<Rightarrow> bool" where
  "is_tuple_list_set (VTuple xs) = True"
| "is_tuple_list_set (VList xs) = True"
| "is_tuple_list_set (VSet xs) = True"
| "is_tuple_list_set v = False"

fun is_dict :: "pyval \<Rightarrow> bool" where
  "is_dict (VDict d) = True"
| "is_dict v = False"

text \<open>\<open>value.items()\<close>: only a dict has the method.\<close>

fun py_items :: "pyval \<Rightarrow> error + (string \<times> pyval) list" where
  "py_items (VDict d) = Inr d"
| "py_items v = Inl AttributeError"

text \<open>\<open>{'value', 'condition'}.issubset(value)\<close> for a dict \<open>value\<close>.\<close>

fun has_value_and_condition :: "pyval \<Rightarrow> bool" where
  "has_value_and_condition (VDict d) =
     (''value'' \<in> fst ` set d \<and> ''condition'' \<in> fst ` set d)"
| "has_value_and_condition v = False"

text \<open>\<open>value[k]\<close> for a dict.\<close>

fun py_getitem :: "pyval \<Rightarrow> string \<Rightarrow> error + pyval" where
  "py_getitem (VDict d) k = (case map_of d k of None \<Rightarrow> Inl (KeyError k) | Some v \<Rightarrow> Inr v)"
| "py_getitem v k = Inl TypeError"

text \<open>
  \<open>f(*value)\<close>: the positional arguments an iterable unpacks to. A string unpacks
  to its characters, a dict to its keys; a non-iterable raises \<open>TypeError\<close>.
\<close>

fun py_unpack :: "pyval \<Rightarrow> error + pyval list" where
  "py_unpack (VTuple xs) = Inr xs"
| "py_unpack (VList xs) = Inr xs"
| "py_unpack (VSet xs) = Inr xs"
| "py_unpack (VStr s) = Inr (map (\<lambda>c. VStr [c]) s)"
| "py_unpack (VDict d) = Inr (map (\<lambda>kv. VStr (fst kv)) d)"
| "py_unpack v = Inl TypeError"

section \<open>The operator table and its lookup (my\_utils.py)\<close>

text \<open>
  \<open>_SUPPORTED_FILTERS\<close>: operator name to the column method the lambda selects, in
  the order of the source.
\<close>

definition SUPPORTED_FILTERS :: "(string \<times> string) list" where
  "SUPPORTED_FILTERS =
    [(''gt'', ''__gt__''), (''lt'', ''__lt__''), (''ge'', ''__ge__''), (''le'', ''__le__''),
     (''eq'', ''__eq__''), (''ne'', ''__ne__''), (''between'', ''between''),
     (''in'', ''in_''), (''not_in'', ''not_in''), (''is'', ''is_''), (''is_not'', ''is_not''),
     (''is_distinct_from'', ''is_distinct_from''),
     (''is_not_distinct_from'', ''is_not_distinct_from''),
     (''like'', ''like''), (''not_like'', ''not_like''), (''ilike'', ''ilike''),
     (''not_ilike'', ''not_ilike''), (''startswith'', ''startswith''),
     (''endswith'', ''endswith''), (''contains'', ''contains''), (''match'', ''match''),
     (''concat'', ''concat''), (''add'', ''__add__''), (''radd'', ''__radd__''),
     (''sub'', ''__sub__''), (''rsub'', ''__rsub__''), (''mul'', ''__mul__''),
     (''rmul'', ''__rmul__''), (''truediv'', ''__truediv__''),
     (''rtruediv'', ''__rtruediv__''), (''floordiv'', ''__floordiv__''),
     (''rfloordiv'', ''__rfloordiv__''), (''mod'', ''__mod__''), (''rmod'', ''__rmod__'')]"

definition sequence_operators :: "string list" where
  "sequence_operators = [''in'', ''not_in'', ''between'']"

definition arithmetic_operators :: "string list" where
  "arithmetic_operators =
    [''add'', ''radd'', ''sub'', ''rsub'', ''mul'', ''rmul'', ''truediv'', ''rtruediv'',
     ''floordiv'', ''rfloordiv'', ''mod'', ''rmod'']"

definition sequence_value_message :: "string \<Rightarrow> string" where
  "sequence_value_message operator = ''The value for <'' @ operator @ ''> must be tuple, list, or set.''"

definition nested_arithmetic_message :: "string \<Rightarrow> string" where
  "nested_arithmetic_message operator = ''Nested arithmetic operations are not allowed: '' @ operator"

definition unsupported_message :: "string \<Rightarrow> string" where
  "unsupported_message operator =
     ''The operator <'' @ operator @ ''> is not supported. Supported operators: ''
       @ py_join '', '' (map fst SUPPORTED_FILTERS) @ ''.''"

text \<open>
  \<open>get_sqlalchemy_filter\<close> returns the warnings it emitted and either the error it
  raised or the looked-up builder (\<open>None\<close> when the table has no such operator).
\<close>

definition get_sqlalchemy_filter ::
  "string \<Rightarrow> pyval \<Rightarrow> bool \<Rightarrow> warning list \<times> (error + string option)" where
  "get_sqlalchemy_filter operator v allow_arithmetic =
     (if operator \<in> set sequence_operators \<and> \<not> is_tuple_list_set v
        then ([], Inl (SelectOperatorError (sequence_value_message operator)))
      else if operator \<in> set arithmetic_operators \<and> \<not> allow_arithmetic
        then ([], Inl (SelectOperatorError (nested_arithmetic_message operator)))
      else (case map_of SUPPORTED_FILTERS operator of
              None \<Rightarrow> ([SyntaxWarning (unsupported_message operator)], Inr None)
            | Some m \<Rightarrow> ([], Inr (Some m))))"

definition get_column :: "model \<Rightarrow> string \<Rightarrow> error + expr" where
  "get_column model field_name =
     (case model field_name of
        None \<Rightarrow> Inl (ModelColumnError field_name)
      | Some column \<Rightarrow> Inr column)"

section \<open>The filter compiler (my\_utils.py, parse\_filters)\<close>

text \<open>
  The call \<open>sqlalchemy_filter(column)(*args)\<close> of a looked-up builder. The method
  \<open>between(cleft, cright, symmetric=False)\<close> takes two or three positional arguments,
  and Python raises \<open>TypeError\<close> for any other number; every other method of the table
  is only ever called with one argument, which its signature takes. A call with the
  right number of arguments raises what the library raises, or returns its expression.
\<close>

definition call_builder :: "library \<Rightarrow> string \<Rightarrow> expr \<Rightarrow> pyval list \<Rightarrow> error + expr" where
  "call_builder lib m receiver args =
     (if m = ''between'' \<and> length args \<noteq> 2 \<and> length args \<noteq> 3 then Inl TypeError
      else (case lib m receiver args of
              Some e \<Rightarrow> Inl e
            | None \<Rightarrow> Inr (Call m receiver args)))"

text \<open>
  The list comprehension of the \<open>or\<close> branch: for each entry in turn the builder is
  looked up (which may raise or warn) and, when there is one, called with the column and
  the entry's value as its one argument (which may raise).
\<close>

fun or_filters ::
  "library \<Rightarrow> expr \<Rightarrow> (string \<times> pyval) list \<Rightarrow> warning list \<times> (error + expr list)" where
  "or_filters lib column [] = ([], Inr [])"
| "or_filters lib column ((or_op, or_value) # rest) =
     (case get_sqlalchemy_filter or_op or_value True of
        (ws, Inl e) \<Rightarrow> (ws, Inl e)
      | (ws, Inr None) \<Rightarrow>
          (case or_filters lib column rest of (ws', r) \<Rightarrow> (ws @ ws', r))
      | (ws, Inr (Some m)) \<Rightarrow>
          (case call_builder lib m column [or_value] of
             Inl e \<Rightarrow> (ws, Inl e)
           | Inr p \<Rightarrow>
               (case or_filters lib column rest of
                  (ws', Inl e) \<Rightarrow> (ws @ ws', Inl e)
                | (ws', Inr fs) \<Rightarrow> (ws @ ws', Inr (p # fs)))))"

text \<open>
  The loop over \<open>condition.items()\<close>. \<open>sqlalchemy_filter\<close> is the builder of the
  key's own operator (possibly \<open>None\<close>); calling \<open>None\<close> raises \<open>TypeError\<close>.
  In \<open>cond_filter(sqlalchemy_filter(column)(advanced_value))(cond_value)\<close> the
  argument, the arithmetic call, is evaluated before \<open>cond_filter\<close> is called, and the
  operand of \<open>between\<close> is unpacked before the comparison is called.
\<close>

fun condition_filters ::
  "library \<Rightarrow> string option \<Rightarrow> expr \<Rightarrow> pyval \<Rightarrow> (string \<times> pyval) list
     \<Rightarrow> warning list \<times> (error + expr list)" where
  "condition_filters lib sqlalchemy_filter column advanced_value [] = ([], Inr [])"
| "condition_filters lib sqlalchemy_filter column advanced_value ((cond_op, cond_value) # rest) =
     (case get_sqlalchemy_filter cond_op cond_value False of
        (ws, Inl e) \<Rightarrow> (ws, Inl e)
      | (ws, Inr cond_filter) \<Rightarrow>
          (case sqlalchemy_filter of
             None \<Rightarrow> (ws, Inl TypeError)
           | Some m \<Rightarrow>
               (case call_builder lib m column [advanced_value] of
                  Inl e \<Rightarrow> (ws, Inl e)
                | Inr target \<Rightarrow>
                    (case cond_filter of
                       None \<Rightarrow> (ws, Inl TypeError)
                     | Some cm \<Rightarrow>
                         (case (if cond_op \<noteq> ''between'' then Inr [cond_value]
                                else py_unpack cond_value) of
                            Inl e \<Rightarrow> (ws, Inl e)
                          | Inr args \<Rightarrow>
                              (case call_builder lib cm target args of
                                 Inl e \<Rightarrow> (ws, Inl e)
                               | Inr p \<Rightarrow>
                                   (case condition_filters lib sqlalchemy_filter column
                                           advanced_value rest of
                                      (ws', Inl e) \<Rightarrow> (ws @ ws', Inl e)
                                    | (ws', Inr fs) \<Rightarrow> (ws @ ws', Inr (p # fs)))))))))"

text \<open>
  Lines 88 to 113: what one key \<open>field_name__op\<close> with its value appends to
  \<open>filters\<close>.
\<close>

definition compile_operator ::
  "library \<Rightarrow> model \<Rightarrow> string \<Rightarrow> string \<Rightarrow> pyval \<Rightarrow> warning list \<times> (error + expr list)" where
  "compile_operator lib model field_name op v =
     (case get_column model field_name of
        Inl e \<Rightarrow> ([], Inl e)
      | Inr column \<Rightarrow>
          (case get_sqlalchemy_filter op v True of
             (ws, Inl e) \<Rightarrow> (ws, Inl e)
           | (ws, Inr sqlalchemy_filter) \<Rightarrow>
               (if op = ''or'' then
                  (case py_items v of
                     Inl e \<Rightarrow> (ws, Inl e)
                   | Inr items \<Rightarrow>
                       (case or_filters lib column items of
                          (ws', Inl e) \<Rightarrow> (ws @ ws', Inl e)
                        | (ws', Inr fs) \<Rightarrow> (ws @ ws', Inr [SqlOr fs])))
                else if is_dict v \<and> has_value_and_condition v then
                  (case py_getitem v ''value'' of
                     Inl e \<Rightarrow> (ws, Inl e)
                   | Inr advanced_value \<Rightarrow>
                       (case py_getitem v ''condition'' of
                          Inl e \<Rightarrow> (ws, Inl e)
                        | Inr condition \<Rightarrow>
                            (case py_items condition of
                               Inl e \<Rightarrow> (ws, Inl e)
                             | Inr items \<Rightarrow>
                                 (case condition_filters lib sqlalchemy_filter column
                                         advanced_value items of
                                    (ws', Inl e) \<Rightarrow> (ws @ ws', Inl e)
                                  | (ws', Inr fs) \<Rightarrow> (ws @ ws', Inr [SqlAnd fs])))))
                else
                  (case sqlalchemy_filter of
                     None \<Rightarrow> (ws, Inr [])
                   | Some m \<Rightarrow>
                       (case (if op \<noteq> ''between'' then Inr [v] else py_unpack v) of
                          Inl e \<Rightarrow> (ws, Inl e)
                        | Inr args \<Rightarrow>
                            (case call_builder lib m column args of
                               Inl e \<Rightarrow> (ws, Inl e)
                             | Inr p \<Rightarrow> (ws, Inr [p])))))))"

text \<open>
  One iteration of the loop over \<open>kwargs.items()\<close>. For a bare key the predicate is
  the expression \<open>column == value\<close>.
\<close>

definition parse_filter_item ::
  "library \<Rightarrow> model \<Rightarrow> string \<times> pyval \<Rightarrow> warning list \<times> (error + expr list)" where
  "parse_filter_item lib model kv =
     (case kv of (key, v) \<Rightarrow>
        (if py_contains ''__'' key then
           (case py_rsplit1 ''__'' key of
              [field_name, op] \<Rightarrow> compile_operator lib model field_name op v
            | _ \<Rightarrow> ([], Inl (ValueError ''unpack'')))
         else
           (case get_column model key of
              Inl e \<Rightarrow> ([], Inl e)
            | Inr column \<Rightarrow> ([], Inr [Call ''__eq__'' column [v]]))))"

text \<open>
  \<open>parse_filters\<close>: the warnings emitted up to the return or the raise, and the
  list \<open>filters\<close> or the error.
\<close>

fun parse_filters ::
  "library \<Rightarrow> model \<Rightarrow> (string \<times> pyval) list \<Rightarrow> warning list \<times> (error + expr list)" where
  "parse_filters lib model [] = ([], Inr [])"
| "parse_filters lib model (kv # kwargs) =
     (case parse_filter_item lib model kv of
        (ws, Inl e) \<Rightarrow> (ws, Inl e)
      | (ws, Inr fs) \<Rightarrow>
          (case parse_filters lib model kwargs of
             (ws', Inl e) \<Rightarrow> (ws @ ws', Inl e)
           | (ws', Inr fs') \<Rightarrow> (ws @ ws', Inr (fs @ fs'))))"

section \<open>The sort normalizer (my\_utils.py, apply\_sorting)\<close>

text \<open>
  \<open>sort_columns\<close> and \<open>sort_orders\<close> are \<open>None\<close>, one string or a list of
  strings. \<open>truthy\<close> is Python's truth value of such an argument: \<open>None\<close>, the
  empty string and the empty list are false.
\<close>

datatype sort_arg = SortNone | SortStr string | SortList "string list"

fun truthy :: "sort_arg \<Rightarrow> bool" where
  "truthy SortNone = False"
| "truthy (SortStr s) = (s \<noteq> [])"
| "truthy (SortList xs) = (xs \<noteq> [])"

text \<open>\<open>[x] if isinstance(x, str) else x\<close>; it is only reached for a truthy argument.\<close>

fun promote :: "sort_arg \<Rightarrow> string list" where
  "promote (SortStr s) = [s]"
| "promote (SortList xs) = xs"
| "promote SortNone = []"

datatype order_clause = Asc expr | Desc expr

record select =
  whereclause :: "expr list"
  order_by :: "order_clause list"

text \<open>The loop over \<open>zip(sort_columns, validated_sort_orders)\<close>.\<close>

fun order_loop :: "model \<Rightarrow> select \<Rightarrow> (string \<times> string) list \<Rightarrow> error + select" where
  "order_loop model stmt [] = Inr stmt"
| "order_loop model stmt ((column_name, order) # rest) =
     (case get_column model column_name of
        Inl e \<Rightarrow> Inl e
      | Inr column \<Rightarrow>
          order_loop model
            (stmt\<lparr>order_by := order_by stmt @ [if order = ''asc'' then Asc column else Desc column]\<rparr>)
            rest)"

definition apply_sorting :: "model \<Rightarrow> select \<Rightarrow> sort_arg \<Rightarrow> sort_arg \<Rightarrow> error + select" where
  "apply_sorting model stmt sort_columns sort_orders =
     (if truthy sort_orders \<and> \<not> truthy sort_columns then
        Inl (ValueError ''Sort orders provided without corresponding sort columns.'')
      else if truthy sort_columns then
        (let columns = promote sort_columns;
             validated_sort_orders = replicate (length columns) ''asc''
         in if truthy sort_orders then
              (let orders = promote sort_orders
               in if length columns \<noteq> length orders then
                    Inl (ColumnSortError ''The length of sort_columns and sort_orders must match.'')
                  else order_loop model stmt (zip columns orders))
            else order_loop model stmt (zip columns validated_sort_orders))
      else Inr stmt)"

section \<open>The session and the row counter\<close>

text \<open>
  The statements the facade hands to \<open>session.execute\<close>. The storage engine is a
  parameter: what the count query's scalar is (possibly null), how a mutation changes
  the stored rows and which row count it reports. A session holds the stored rows, the
  statements executed so far and the number of commits; the count query reads the rows
  and leaves them as they are.
\<close>

datatype statement =
    CountStmt "expr list"
  | UpdateStmt "expr list" "(string \<times> pyval) list"
  | DeleteStmt "expr list"

record 'db engine =
  count_scalar :: "'db \<Rightarrow> expr list \<Rightarrow> int option"
  mutate :: "statement \<Rightarrow> 'db \<Rightarrow> 'db"
  reported_rowcount :: "statement \<Rightarrow> 'db \<Rightarrow> int"

record 'db session =
  rows :: 'db
  executed :: "statement list"
  commits :: nat

record result =
  scalar :: "int option"
  rowcount :: int

definition execute :: "'db engine \<Rightarrow> 'db session \<Rightarrow> statement \<Rightarrow> 'db session \<times> result" where
  "execute eng session stmt =
     (case stmt of
        CountStmt fs \<Rightarrow>
          (session\<lparr>executed := executed session @ [stmt]\<rparr>,
           \<lparr>scalar = count_scalar eng (rows session) fs, rowcount = - 1\<rparr>)
      | _ \<Rightarrow>
          (session\<lparr>rows := mutate eng stmt (rows session),
                   executed := executed session @ [stmt]\<rparr>,
           \<lparr>scalar = None, rowcount = reported_rowcount eng stmt (rows session)\<rparr>))"

text \<open>\<open>count\<close>: the where clause is added only for a non-empty filter list; a null scalar counts as 0.\<close>

definition count :: "'db engine \<Rightarrow> 'db session \<Rightarrow> expr list \<Rightarrow> 'db session \<times> int" where
  "count eng session filters =
     (let stmt = (if filters \<noteq> [] then CountStmt filters else CountStmt []);
          (session', query) = execute eng session stmt
      in (session', case scalar query of None \<Rightarrow> 0 | Some n \<Rightarrow> if n = 0 then 0 else n))"

section \<open>The CRUD facade (my\_crud.py)\<close>

record crud_plus =
  crud_model :: model
  primary_key :: expr

text \<open>
  An update payload is a dict or a schema object; the schema's
  \<open>model_dump(exclude_unset=True)\<close> is the dict it carries.
\<close>

datatype update_obj = SchemaObj "(string \<times> pyval) list" | DictObj "(string \<times> pyval) list"

fun instance_data :: "update_obj \<Rightarrow> (string \<times> pyval) list" where
  "instance_data (SchemaObj d) = d"
| "instance_data (DictObj d) = d"

definition commit_if_needed :: "'db session \<Rightarrow> bool \<Rightarrow> 'db session" where
  "commit_if_needed session commit =
     (if commit then session\<lparr>commits := Suc (commits session)\<rparr> else session)"

definition update_model_by_column ::
  "library \<Rightarrow> 'db engine \<Rightarrow> crud_plus \<Rightarrow> 'db session \<Rightarrow> update_obj \<Rightarrow> bool \<Rightarrow> bool
     \<Rightarrow> (string \<times> pyval) list \<Rightarrow> warning list \<times> 'db session \<times> (error + int)" where
  "update_model_by_column lib eng self session obj allow_multiple commit kwargs =
     (case parse_filters lib (crud_model self) kwargs of
        (ws, Inl e) \<Rightarrow> (ws, session, Inl e)
      | (ws, Inr filters) \<Rightarrow>
          (case count eng session filters of
             (session1, total_count) \<Rightarrow>
               (if \<not> allow_multiple \<and> total_count > 1 then
                  (ws, session1, Inl (MultipleResultsError ''updated'' total_count))
                else
                  (case execute eng session1 (UpdateStmt filters (instance_data obj)) of
                     (session2, res) \<Rightarrow>
                       (ws, commit_if_needed session2 commit, Inr (rowcount res))))))"

definition delete_model ::
  "'db engine \<Rightarrow> crud_plus \<Rightarrow> 'db session \<Rightarrow> pyval \<Rightarrow> bool
     \<Rightarrow> 'db session \<times> (error + int)" where
  "delete_model eng self session pk commit =
     (case execute eng session (DeleteStmt [Call ''__eq__'' (primary_key self) [pk]]) of
        (session1, res) \<Rightarrow> (commit_if_needed session1 commit, Inr (rowcount res)))"

definition delete_model_by_column ::
  "library \<Rightarrow> 'db engine \<Rightarrow> crud_plus \<Rightarrow> 'db session \<Rightarrow> bool \<Rightarrow> bool \<Rightarrow> string \<Rightarrow> bool
     \<Rightarrow> (string \<times> pyval) list \<Rightarrow> warning list \<times> 'db session \<times> (error + int)" where
  "delete_model_by_column lib eng self session allow_multiple logical_deletion
       deleted_flag_column commit kwargs =
     (case parse_filters lib (crud_model self) kwargs of
        (ws, Inl e) \<Rightarrow> (ws, session, Inl e)
      | (ws, Inr filters) \<Rightarrow>
          (case count eng session filters of
             (session1, total_count) \<Rightarrow>
               (if \<not> allow_multiple \<and> total_count > 1 then
                  (ws, session1, Inl (MultipleResultsError ''deleted'' total_count))
                else
                  (let stmt = (if logical_deletion
                               then UpdateStmt filters [(deleted_flag_column, VBool True)]
                               else DeleteStmt filters)
                   in (case execute eng session1 stmt of
                         (session2, res) \<Rightarrow>
                           (ws, commit_if_needed session2 commit, Inr total_count))))))"

section \<open>Vocabulary of the statements\<close>

text \<open>
  The names below are used to state the properties; the code does not call them.
  \<open>known_operator\<close> says that the table has the operator, \<open>builder_method\<close> is the
  method the table gives it. \<open>value_shape_ok\<close> is the negation of the test that makes
  \<open>get_sqlalchemy_filter\<close> raise on a value that is not a tuple, list or set.
\<close>

definition known_operator :: "string \<Rightarrow> bool" where
  "known_operator op = (map_of SUPPORTED_FILTERS op \<noteq> None)"

definition builder_method :: "string \<Rightarrow> string" where
  "builder_method op = (case map_of SUPPORTED_FILTERS op of Some m \<Rightarrow> m | None \<Rightarrow> [])"

definition value_shape_ok :: "string \<times> pyval \<Rightarrow> bool" where
  "value_shape_ok e = (\<not> (fst e \<in> set sequence_operators \<and> \<not> is_tuple_list_set (snd e)))"

text \<open>
  An entry of a \<open>condition\<close> mapping that is a plain comparison: a known operator
  that is not arithmetic, with a value of the right shape.
\<close>

definition comparison_entry :: "string \<times> pyval \<Rightarrow> bool" where
  "comparison_entry e =
     (known_operator (fst e) \<and> fst e \<notin> set arithmetic_operators \<and> value_shape_ok e)"

text \<open>The positional arguments a builder receives: the operand of \<open>between\<close> is unpacked.\<close>

definition positional_args :: "string \<Rightarrow> pyval \<Rightarrow> pyval list" where
  "positional_args op v =
     (if op \<noteq> ''between'' then [v]
      else (case py_unpack v of Inr args \<Rightarrow> args | Inl e \<Rightarrow> []))"

definition compare_with :: "expr \<Rightarrow> string \<times> pyval \<Rightarrow> expr" where
  "compare_with target e = Call (builder_method (fst e)) target (positional_args (fst e) (snd e))"

definition or_term :: "expr \<Rightarrow> string \<times> pyval \<Rightarrow> expr" where
  "or_term column e = Call (builder_method (fst e)) column [snd e]"

text \<open>
  The builder calls of an entry return. For an entry of a \<open>condition\<close> mapping these
  are the two calls of its loop iteration: the arithmetic call of the key's builder \<open>m\<close>
  on the column, and the comparison of its result with the entry's operand. For an entry
  of an \<open>or\<close> group whose operator is in the table it is the call with the column; the
  entry is then not \<open>between\<close>, and the library accepts the call.
\<close>

definition comparison_builds ::
  "library \<Rightarrow> string \<Rightarrow> expr \<Rightarrow> pyval \<Rightarrow> string \<times> pyval \<Rightarrow> bool" where
  "comparison_builds lib m column adv e =
     (call_builder lib m column [adv] = Inr (Call m column [adv]) \<and>
      call_builder lib (builder_method (fst e)) (Call m column [adv])
          (positional_args (fst e) (snd e))
        = Inr (compare_with (Call m column [adv]) e))"

definition or_entry_builds :: "library \<Rightarrow> expr \<Rightarrow> string \<times> pyval \<Rightarrow> bool" where
  "or_entry_builds lib column e =
     (\<not> known_operator (fst e) \<or>
      (fst e \<noteq> ''between'' \<and> lib (builder_method (fst e)) column [snd e] = None))"

definition unsupported_warning :: "string \<Rightarrow> warning" where
  "unsupported_warning op = SyntaxWarning (unsupported_message op)"

text \<open>An entity with the columns \<open>f\<close> and \<open>a__b\<close>, for the concrete runs.\<close>

definition example_model :: model where
  "example_model = [''f'' \<mapsto> Column ''f'', ''a__b'' \<mapsto> Column ''a__b'']"

text \<open>
  A library for the concrete runs: it raises \<open>ArgumentError\<close> for an ordering
  comparison with \<open>None\<close>, \<open>True\<close> or \<open>False\<close> and accepts every other call.
\<close>

fun none_or_bool :: "pyval \<Rightarrow> bool" where
  "none_or_bool VNone = True"
| "none_or_bool (VBool b) = True"
| "none_or_bool v = False"

definition example_library :: library where
  "example_library m receiver args =
     (if m \<in> set [''__gt__'', ''__lt__'', ''__ge__'', ''__le__''] \<and> list_ex none_or_bool args
      then Some ArgumentError else None)"

text \<open>
  A storage engine for the concrete runs: the stored rows are a list of integers, every
  filter list matches all of them, a delete removes them, and the driver reports
  \<open>-1\<close> as the row count of every statement.
\<close>

definition example_engine :: "int list engine" where
  "example_engine =
     \<lparr>count_scalar = (\<lambda>db fs. Some (int (length db))),
      mutate = (\<lambda>stmt db. case stmt of DeleteStmt fs \<Rightarrow> [] | _ \<Rightarrow> db),
      reported_rowcount = (\<lambda>stmt db. - 1)\<rparr>"

definition example_crud :: crud_plus where
  "example_crud = \<lparr>crud_model = example_model, primary_key = Column ''id''\<rparr>"

section \<open>Facts about the string primitives\<close>

lemma rfind_Some_occ: "sep \<noteq> [] \<Longrightarrow> py_rfind sep s = Some i \<Longrightarrow> take (length sep) (drop i s) = sep"
  by (induction s arbitrary: i) (auto split: option.splits if_splits)

lemma rfind_None: "sep \<noteq> [] \<Longrightarrow> py_rfind sep s = None \<Longrightarrow> take (length sep) (drop j s) \<noteq> sep"
proof (induction s arbitrary: j)
  case Nil then show ?case by auto
next
  case (Cons c cs)
  then show ?case by (cases j) (auto split: option.splits if_splits)
qed

lemma rfind_last: "sep \<noteq> [] \<Longrightarrow> py_rfind sep s = Some i \<Longrightarrow> take (length sep) (drop j s) = sep \<Longrightarrow> j \<le> i"
proof (induction s arbitrary: i j)
  case Nil then show ?case by auto
next
  case (Cons c cs)
  show ?case
  proof (cases "py_rfind sep cs")
    case None
    with Cons.prems have i0: "i = 0" by (auto split: if_splits)
    show ?thesis
    proof (cases j)
      case 0 then show ?thesis by simp
    next
      case (Suc j')
      with Cons.prems(3) have "take (length sep) (drop j' cs) = sep" by simp
      with rfind_None[OF Cons.prems(1) None] show ?thesis by blast
    qed
  next
    case (Some i')
    with Cons.prems have i: "i = Suc i'" by auto
    show ?thesis
    proof (cases j)
      case 0 then show ?thesis by simp
    next
      case (Suc j')
      with Cons.prems(3) have "take (length sep) (drop j' cs) = sep" by simp
      from Cons.IH[OF Cons.prems(1) Some this] i Suc show ?thesis by simp
    qed
  qed
qed

lemma contains_rfind: "sep \<noteq> [] \<Longrightarrow> py_contains sep s \<Longrightarrow> \<exists>i. py_rfind sep s = Some i"
  by (induction s) (auto split: option.splits)

lemma contains_occ: "sep \<noteq> [] \<Longrightarrow> py_contains sep s \<longleftrightarrow> (\<exists>i. take (length sep) (drop i s) = sep)"
proof (induction s)
  case Nil then show ?case by auto
next
  case (Cons c cs)
  show ?case
  proof
    assume "py_contains sep (c # cs)"
    then consider "take (length sep) (c # cs) = sep" | "py_contains sep cs" by auto
    then show "\<exists>i. take (length sep) (drop i (c # cs)) = sep"
    proof cases
      case 1 then have "take (length sep) (drop 0 (c # cs)) = sep" by simp
      then show ?thesis by blast
    next
      case 2
      with Cons obtain i where "take (length sep) (drop i cs) = sep" by auto
      then have "take (length sep) (drop (Suc i) (c # cs)) = sep" by simp
      then show ?thesis by blast
    qed
  next
    assume "\<exists>i. take (length sep) (drop i (c # cs)) = sep"
    then obtain i where i: "take (length sep) (drop i (c # cs)) = sep" by blast
    show "py_contains sep (c # cs)"
    proof (cases i)
      case 0 with i show ?thesis by simp
    next
      case (Suc i')
      with i have "take (length sep) (drop i' cs) = sep" by simp
      with Cons show ?thesis by auto
    qed
  qed
qed

lemma rfind_le: "sep \<noteq> [] \<Longrightarrow> py_rfind sep s = Some i \<Longrightarrow> i + length sep \<le> length s"
proof -
  assume a: "sep \<noteq> []" "py_rfind sep s = Some i"
  from rfind_Some_occ[OF a] have "length (take (length sep) (drop i s)) = length sep" by simp
  with a(1) show ?thesis by (cases sep) (auto simp: min_def split: if_splits)
qed

lemma rsplit1_split:
  assumes "sep \<noteq> []" "py_contains sep key"
  shows "\<exists>field_name op. py_rsplit1 sep key = [field_name, op] \<and> key = field_name @ sep @ op
           \<and> (\<forall>i. take (length sep) (drop i key) = sep \<longrightarrow> i \<le> length field_name)"
proof -
  from contains_rfind[OF assms] obtain i where i: "py_rfind sep key = Some i" by blast
  have occ: "take (length sep) (drop i key) = sep" by (rule rfind_Some_occ[OF assms(1) i])
  have le: "i + length sep \<le> length key" by (rule rfind_le[OF assms(1) i])
  have "key = take i key @ drop i key" by simp
  also have "drop i key = take (length sep) (drop i key) @ drop (length sep) (drop i key)"
    by (rule append_take_drop_id[symmetric])
  also have "take (length sep) (drop i key) = sep" by (rule occ)
  also have "drop (length sep) (drop i key) = drop (i + length sep) key" by (simp add: add.commute)
  finally have k: "key = take i key @ sep @ drop (i + length sep) key" .
  have len: "length (take i key) = i" using le by simp
  have last: "\<forall>j. take (length sep) (drop j key) = sep \<longrightarrow> j \<le> length (take i key)"
    using rfind_last[OF assms(1) i] len by simp
  have "py_rsplit1 sep key = [take i key, drop (i + length sep) key]"
    by (simp add: py_rsplit1_def i)
  with k last show ?thesis by blast
qed

lemma rsplit1_append:
  assumes "\<not> py_contains ''__'' (CHR ''_'' # op)"
  shows "py_rsplit1 ''__'' (f @ ''__'' @ op) = [f, op]" and "py_contains ''__'' (f @ ''__'' @ op)"
proof -
  let ?key = "f @ ''__'' @ op"
  have sep: "''__'' \<noteq> []" by simp
  have occ: "take (length ''__'') (drop (length f) ?key) = ''__''" by simp
  then show c: "py_contains ''__'' ?key" using contains_occ[OF sep, of ?key] by blast
  from rsplit1_split[OF sep c] obtain g p where
    gp: "py_rsplit1 ''__'' ?key = [g, p]" "?key = g @ ''__'' @ p"
        "\<forall>i. take (length ''__'') (drop i ?key) = ''__'' \<longrightarrow> i \<le> length g" by blast
  from gp(3) occ have le: "length f \<le> length g" by blast
  have "length g \<le> length f"
  proof (rule ccontr)
    assume "\<not> length g \<le> length f"
    then have lt: "length f < length g" by simp
    then obtain k where k: "length g = length f + Suc k" using less_imp_Suc_add by auto
    from gp(2) have "drop (length g) ?key = drop (length g) (g @ ''__'' @ p)"
      by (rule arg_cong)
    then have t: "take 2 (drop (length g) ?key) = ''__''" by simp
    have eq: "drop (length g) ?key = drop k (CHR ''_'' # op)"
      unfolding k by simp
    have l2: "length ''__'' = 2" by simp
    have "take (length ''__'') (drop k (CHR ''_'' # op)) = ''__''"
      using t by (simp only: eq l2)
    with contains_occ[OF sep, of "CHR ''_'' # op"] assms show False by blast
  qed
  with le have "length g = length f" by simp
  with gp(2) have "g = f" "p = op" by auto
  with gp(1) show "py_rsplit1 ''__'' ?key = [f, op]" by simp
qed

lemma parse_filter_item_split:
  "py_contains ''__'' key \<Longrightarrow> py_rsplit1 ''__'' key = [f, op] \<Longrightarrow>
     parse_filter_item lib model (key, v) = compile_operator lib model f op v"
  by (simp add: parse_filter_item_def)

lemma parse_filters_append:
  "parse_filters lib model (xs @ ys) =
     (case parse_filters lib model xs of
        (ws, Inl e) \<Rightarrow> (ws, Inl e)
      | (ws, Inr fs) \<Rightarrow>
          (case parse_filters lib model ys of
             (ws', Inl e) \<Rightarrow> (ws @ ws', Inl e)
           | (ws', Inr fs') \<Rightarrow> (ws @ ws', Inr (fs @ fs'))))"
  by (induction xs) (auto split: prod.splits sum.splits)

section \<open>Facts about the operator lookup and the two inner loops\<close>

lemma sequence_operator_known: "op \<in> set sequence_operators \<Longrightarrow> known_operator op"
  by (auto simp: sequence_operators_def known_operator_def SUPPORTED_FILTERS_def)

lemma arithmetic_operator_known: "op \<in> set arithmetic_operators \<Longrightarrow> known_operator op"
  by (auto simp: arithmetic_operators_def known_operator_def SUPPORTED_FILTERS_def)

lemma arithmetic_not_sequence: "op \<in> set arithmetic_operators \<Longrightarrow> op \<notin> set sequence_operators"
  by (auto simp: arithmetic_operators_def sequence_operators_def)

lemma lookup_unknown:
  "\<not> known_operator op \<Longrightarrow> get_sqlalchemy_filter op v a = ([unsupported_warning op], Inr None)"
  using sequence_operator_known[of op] arithmetic_operator_known[of op]
  by (auto simp: get_sqlalchemy_filter_def known_operator_def unsupported_warning_def)

lemma lookup_nested:
  "op \<in> set arithmetic_operators \<Longrightarrow>
     get_sqlalchemy_filter op v False = ([], Inl (SelectOperatorError (nested_arithmetic_message op)))"
  using arithmetic_not_sequence[of op] by (simp add: get_sqlalchemy_filter_def)

lemma lookup_bad_shape:
  "op \<in> set sequence_operators \<Longrightarrow> \<not> is_tuple_list_set v \<Longrightarrow>
     get_sqlalchemy_filter op v a = ([], Inl (SelectOperatorError (sequence_value_message op)))"
  by (simp add: get_sqlalchemy_filter_def)

lemma lookup_known:
  "known_operator op \<Longrightarrow> value_shape_ok (op, v) \<Longrightarrow> a \<or> op \<notin> set arithmetic_operators \<Longrightarrow>
     get_sqlalchemy_filter op v a = ([], Inr (Some (builder_method op)))"
  by (auto simp: get_sqlalchemy_filter_def known_operator_def value_shape_ok_def builder_method_def)

lemma call_builder_accepted:
  "m \<noteq> ''between'' \<Longrightarrow> lib m receiver args = None \<Longrightarrow>
     call_builder lib m receiver args = Inr (Call m receiver args)"
  by (simp add: call_builder_def)

lemma call_builder_result:
  "call_builder lib m receiver args = Inr p \<Longrightarrow> p = Call m receiver args"
  by (auto simp: call_builder_def split: if_splits option.splits)

lemma call_between_one_argument: "call_builder lib ''between'' receiver [v] = Inl TypeError"
  by (simp add: call_builder_def)

lemma builder_method_between:
  "known_operator op \<Longrightarrow> op \<noteq> ''between'' \<Longrightarrow> builder_method op \<noteq> ''between''"
  by (auto simp: known_operator_def builder_method_def SUPPORTED_FILTERS_def split: if_splits)

lemma or_entry_call:
  "known_operator op \<Longrightarrow> or_entry_builds lib column (op, v) \<Longrightarrow>
     call_builder lib (builder_method op) column [v] = Inr (or_term column (op, v))"
  using builder_method_between[of op]
  by (auto simp: or_entry_builds_def or_term_def intro: call_builder_accepted)

lemma or_filters_ok:
  "list_all value_shape_ok items \<Longrightarrow> list_all (or_entry_builds lib column) items \<Longrightarrow>
     or_filters lib column items =
       (map (\<lambda>e. unsupported_warning (fst e)) (filter (\<lambda>e. \<not> known_operator (fst e)) items),
        Inr (map (or_term column) (filter (\<lambda>e. known_operator (fst e)) items)))"
proof (induction items)
  case Nil
  then show ?case by simp
next
  case (Cons e items)
  obtain op v where e: "e = (op, v)" by (cases e)
  from Cons.prems have ok: "value_shape_ok (op, v)" and rest: "list_all value_shape_ok items"
    and b: "or_entry_builds lib column (op, v)"
    and brest: "list_all (or_entry_builds lib column) items"
    by (simp_all add: e)
  show ?case
  proof (cases "known_operator op")
    case True
    then show ?thesis
      using lookup_known[OF True ok, of True] or_entry_call[OF True b] Cons.IH[OF rest brest]
      by (simp add: e)
  next
    case False
    then show ?thesis
      using lookup_unknown[OF False, of v True] Cons.IH[OF rest brest]
      by (simp add: e)
  qed
qed

lemma or_filters_bad:
  "list_all value_shape_ok pre \<Longrightarrow> list_all (or_entry_builds lib column) pre \<Longrightarrow>
   op \<in> set sequence_operators \<Longrightarrow> \<not> is_tuple_list_set v \<Longrightarrow>
     snd (or_filters lib column (pre @ (op, v) # post)) =
       Inl (SelectOperatorError (sequence_value_message op))"
proof (induction pre)
  case Nil
  then show ?case by (simp add: lookup_bad_shape)
next
  case (Cons e pre)
  obtain op' v' where e: "e = (op', v')" by (cases e)
  from Cons.prems have ok: "value_shape_ok (op', v')" and rest: "list_all value_shape_ok pre"
    and b: "or_entry_builds lib column (op', v')"
    and brest: "list_all (or_entry_builds lib column) pre"
    by (simp_all add: e)
  from Cons.IH[OF rest brest Cons.prems(3,4)]
  have ih: "snd (or_filters lib column (pre @ (op, v) # post)) =
              Inl (SelectOperatorError (sequence_value_message op))" .
  show ?case
  proof (cases "known_operator op'")
    case True
    then show ?thesis
      using lookup_known[OF True ok, of True] or_entry_call[OF True b] ih
      by (auto simp: e split: prod.splits sum.splits)
  next
    case False
    then show ?thesis
      using lookup_unknown[OF False, of v' True] ih
      by (auto simp: e split: prod.splits)
  qed
qed

lemma or_filters_unknown:
  assumes "list_all (\<lambda>e. \<not> known_operator (fst e)) items"
  shows "or_filters lib column items = (map (\<lambda>e. unsupported_warning (fst e)) items, Inr [])"
proof -
  from assms have ok: "list_all value_shape_ok items"
    using sequence_operator_known by (auto simp: list_all_iff value_shape_ok_def)
  from assms have b: "list_all (or_entry_builds lib column) items"
    by (auto simp: list_all_iff or_entry_builds_def)
  from assms have f1: "filter (\<lambda>e. \<not> known_operator (fst e)) items = items"
    by (simp add: list_all_iff)
  from assms have f2: "filter (\<lambda>e. known_operator (fst e)) items = []"
    by (simp add: list_all_iff filter_empty_conv)
  from or_filters_ok[OF ok b] f1 f2 show ?thesis by simp
qed

lemma unpack_sequence: "is_tuple_list_set v \<Longrightarrow> \<exists>xs. py_unpack v = Inr xs"
  by (cases v) auto

lemma comparison_step:
  assumes "comparison_entry (op, v)" and "comparison_builds lib m column adv (op, v)"
  shows "get_sqlalchemy_filter op v False = ([], Inr (Some (builder_method op)))"
    and "call_builder lib m column [adv] = Inr (Call m column [adv])"
    and "(if op \<noteq> ''between'' then Inr [v] else py_unpack v) = Inr (positional_args op v)"
    and "call_builder lib (builder_method op) (Call m column [adv]) (positional_args op v) =
           Inr (compare_with (Call m column [adv]) (op, v))"
proof -
  from assms(1) have k: "known_operator op" and na: "op \<notin> set arithmetic_operators"
    and ok: "value_shape_ok (op, v)" by (simp_all add: comparison_entry_def)
  show "get_sqlalchemy_filter op v False = ([], Inr (Some (builder_method op)))"
    using lookup_known[OF k ok, of False] na by simp
  show "call_builder lib m column [adv] = Inr (Call m column [adv])"
    using assms(2) by (simp add: comparison_builds_def)
  show "call_builder lib (builder_method op) (Call m column [adv]) (positional_args op v) =
           Inr (compare_with (Call m column [adv]) (op, v))"
    using assms(2) by (simp add: comparison_builds_def)
  show "(if op \<noteq> ''between'' then Inr [v] else py_unpack v) = Inr (positional_args op v)"
  proof (cases "op = ''between''")
    case True
    with ok have "is_tuple_list_set v" by (simp add: value_shape_ok_def sequence_operators_def)
    then obtain xs where "py_unpack v = Inr xs" using unpack_sequence by blast
    with True show ?thesis by (simp add: positional_args_def)
  next
    case False
    then show ?thesis by (simp add: positional_args_def)
  qed
qed

lemma condition_filters_ok:
  "list_all comparison_entry items \<Longrightarrow> list_all (comparison_builds lib m column adv) items \<Longrightarrow>
     condition_filters lib (Some m) column adv items =
       ([], Inr (map (compare_with (Call m column [adv])) items))"
proof (induction items)
  case Nil
  then show ?case by simp
next
  case (Cons e items)
  obtain op v where e: "e = (op, v)" by (cases e)
  from Cons.prems have c: "comparison_entry (op, v)" and rest: "list_all comparison_entry items"
    and b: "comparison_builds lib m column adv (op, v)"
    and brest: "list_all (comparison_builds lib m column adv) items"
    by (simp_all add: e)
  show ?case
    using comparison_step[OF c b] Cons.IH[OF rest brest] by (simp add: e)
qed

lemma condition_filters_nested:
  "list_all comparison_entry pre \<Longrightarrow> list_all (comparison_builds lib m column adv) pre \<Longrightarrow>
   op \<in> set arithmetic_operators \<Longrightarrow>
     condition_filters lib (Some m) column adv (pre @ (op, v) # post) =
       ([], Inl (SelectOperatorError (nested_arithmetic_message op)))"
proof (induction pre)
  case Nil
  then show ?case by (simp add: lookup_nested)
next
  case (Cons e pre)
  obtain op' v' where e: "e = (op', v')" by (cases e)
  from Cons.prems have c: "comparison_entry (op', v')" and rest: "list_all comparison_entry pre"
    and b: "comparison_builds lib m column adv (op', v')"
    and brest: "list_all (comparison_builds lib m column adv) pre"
    by (simp_all add: e)
  show ?case
    using comparison_step[OF c b] Cons.IH[OF rest brest Cons.prems(3)] by (simp add: e)
qed

lemma sequence_no_delimiter: "op \<in> set sequence_operators \<Longrightarrow> \<not> py_contains ''__'' (CHR ''_'' # op)"
  by (auto simp: sequence_operators_def)

lemma arithmetic_no_delimiter: "op \<in> set arithmetic_operators \<Longrightarrow> \<not> py_contains ''__'' (CHR ''_'' # op)"
  by (auto simp: arithmetic_operators_def)

lemma parse_filter_item_key:
  "\<not> py_contains ''__'' (CHR ''_'' # op) \<Longrightarrow>
     parse_filter_item lib model (f @ ''__'' @ op, v) = compile_operator lib model f op v"
  using rsplit1_append[of op f] by (simp add: parse_filter_item_def)

lemma parse_filters_failing_item:
  "parse_filters lib model before = (ws, Inr fs) \<Longrightarrow> parse_filter_item lib model kv = (ws', Inl e) \<Longrightarrow>
     parse_filters lib model (before @ kv # after) = (ws @ ws', Inl e)"
  by (simp add: parse_filters_append)


lemma parse_filters_single:
  "parse_filters lib model [kv] =
     (case parse_filter_item lib model kv of (ws, Inl e) \<Rightarrow> (ws, Inl e) | (ws, Inr fs) \<Rightarrow> (ws, Inr fs))"
  by (simp split: prod.splits sum.splits)

section \<open>Facts about the compilation of one key\<close>


lemma compile_or_group:
  assumes "model f = Some column"
  shows "compile_operator lib model f ''or'' (VDict items) =
     (case or_filters lib column items of
        (ws', Inl e) \<Rightarrow> (unsupported_warning ''or'' # ws', Inl e)
      | (ws', Inr fs) \<Rightarrow> (unsupported_warning ''or'' # ws', Inr [SqlOr fs]))"
proof -
  have u: "\<not> known_operator ''or''" by (simp add: known_operator_def SUPPORTED_FILTERS_def)
  show ?thesis using assms lookup_unknown[OF u, of "VDict items" True]
    by (simp add: compile_operator_def get_column_def split: prod.splits sum.splits)
qed

lemma or_key: "parse_filter_item lib model (f @ ''__or'', v) = compile_operator lib model f ''or'' v"
proof -
  have "\<not> py_contains ''__'' (CHR ''_'' # ''or'')" by simp
  from parse_filter_item_key[OF this, of lib model f v] show ?thesis by simp
qed

lemma compile_conditional_group:
  assumes "aop \<in> set arithmetic_operators" "model f = Some column"
    "map_of d ''value'' = Some adv" "map_of d ''condition'' = Some (VDict conds)"
  shows "compile_operator lib model f aop (VDict d) =
     (case condition_filters lib (Some (builder_method aop)) column adv conds of
        (ws', Inl e) \<Rightarrow> (ws', Inl e)
      | (ws', Inr fs) \<Rightarrow> (ws', Inr [SqlAnd fs]))"
proof -
  have nor: "aop \<noteq> ''or''" using assms(1) by (auto simp: arithmetic_operators_def)
  have ok: "value_shape_ok (aop, VDict d)"
    using arithmetic_not_sequence[OF assms(1)] by (simp add: value_shape_ok_def)
  have look: "get_sqlalchemy_filter aop (VDict d) True = ([], Inr (Some (builder_method aop)))"
    using lookup_known[OF arithmetic_operator_known[OF assms(1)] ok, of True] by simp
  have "''value'' \<in> fst ` set d" "''condition'' \<in> fst ` set d"
    using assms(3,4) by (auto dest!: map_of_SomeD intro: rev_image_eqI)
  then have h: "has_value_and_condition (VDict d)" by simp
  show ?thesis using assms(2,3,4) look nor h
    by (simp add: compile_operator_def get_column_def split: prod.splits sum.splits)
qed

lemma compile_sequence_operator:
  assumes "op \<in> set sequence_operators" "is_tuple_list_set v" "model f = Some column"
  shows "compile_operator lib model f op v =
     ([], case call_builder lib (builder_method op) column (positional_args op v) of
            Inl e \<Rightarrow> Inl e
          | Inr p \<Rightarrow> Inr [p])"
proof -
  from assms(2) obtain xs where xs: "py_unpack v = Inr xs" using unpack_sequence by blast
  from assms(2) have nd: "\<not> has_value_and_condition v" by (cases v) auto
  have nor: "op \<noteq> ''or''" using assms(1) by (auto simp: sequence_operators_def)
  have ok: "value_shape_ok (op, v)" using assms(2) by (simp add: value_shape_ok_def)
  have look: "get_sqlalchemy_filter op v True = ([], Inr (Some (builder_method op)))"
    using lookup_known[OF sequence_operator_known[OF assms(1)] ok, of True] by simp
  show ?thesis using assms(3) look nor nd xs
    by (simp add: compile_operator_def get_column_def positional_args_def split: sum.splits)
qed

lemma gt_comparison: "comparison_entry (''gt'', v)"
  by (simp add: comparison_entry_def known_operator_def value_shape_ok_def SUPPORTED_FILTERS_def
        arithmetic_operators_def sequence_operators_def)

lemma gt_lt_entries:
  "known_operator ''gt''" "known_operator ''lt''" "\<not> known_operator ''frobnicate''"
  "builder_method ''gt'' = ''__gt__''" "builder_method ''lt'' = ''__lt__''"
  "value_shape_ok (''gt'', v)" "value_shape_ok (''lt'', v)" "value_shape_ok (''frobnicate'', v)"
  by (simp_all add: known_operator_def builder_method_def value_shape_ok_def SUPPORTED_FILTERS_def
        sequence_operators_def)

section \<open>Facts about the ordering loop, the row counter and the session\<close>

lemma order_loop_error:
  "order_loop model stmt pairs = Inl e \<Longrightarrow> \<exists>c \<in> fst ` set pairs. model c = None \<and> e = ModelColumnError c"
proof (induction pairs arbitrary: stmt)
  case Nil
  then show ?case by simp
next
  case (Cons p pairs)
  obtain c order where p: "p = (c, order)" by (cases p)
  show ?case
  proof (cases "model c")
    case None
    with Cons.prems show ?thesis by (simp add: p get_column_def)
  next
    case (Some column)
    with Cons.prems Cons.IH show ?thesis by (fastforce simp: p get_column_def)
  qed
qed

lemma order_loop_resolved:
  "list_all (\<lambda>p. model (fst p) \<noteq> None) pairs \<Longrightarrow>
     order_loop model stmt pairs =
       Inr (stmt\<lparr>order_by := order_by stmt @
              map (\<lambda>(c, order). if order = ''asc'' then Asc (the (model c)) else Desc (the (model c)))
                  pairs\<rparr>)"
proof (induction pairs arbitrary: stmt)
  case Nil
  then show ?case by simp
next
  case (Cons p pairs)
  obtain c order where p: "p = (c, order)" by (cases p)
  from Cons.prems obtain column where col: "model c = Some column"
    and rest: "list_all (\<lambda>p. model (fst p) \<noteq> None) pairs" by (auto simp: p)
  show ?case using Cons.IH[OF rest] col by (simp add: p get_column_def)
qed


lemma zip_resolved:
  "list_all (\<lambda>c. model c \<noteq> None) cols \<Longrightarrow> list_all (\<lambda>p. model (fst p) \<noteq> None) (zip cols orders)"
  by (auto simp: list_all_iff dest: set_zip_leftD)

lemma count_result:
  "count eng session filters =
     (session\<lparr>executed := executed session @ [CountStmt filters]\<rparr>,
      case count_scalar eng (rows session) filters of None \<Rightarrow> 0 | Some n \<Rightarrow> n)"
  by (cases filters) (auto simp: count_def execute_def Let_def split: option.splits)

lemma execute_mutation:
  "stmt = UpdateStmt fs d \<or> stmt = DeleteStmt fs \<Longrightarrow>
     execute eng session stmt =
       (session\<lparr>rows := mutate eng stmt (rows session), executed := executed session @ [stmt]\<rparr>,
        \<lparr>scalar = None, rowcount = reported_rowcount eng stmt (rows session)\<rparr>)"
  by (auto simp: execute_def)

section \<open>The claims\<close>

text \<open>
  Claim C7. A filter key that contains the delimiter \<open>__\<close> is split into field name
  and operator at the last occurrence of the delimiter: the key is the field name, the
  delimiter and the operator; no occurrence of the delimiter starts after the end of the
  field name; splitting at any other occurrence (an earlier one, such as the first) gives
  a different pair; and the key is compiled as that field with that operator.
\<close>

theorem C7_key_split_at_last_delimiter:
  assumes "py_contains ''__'' key"
  shows "\<exists>field_name op.
           py_rsplit1 ''__'' key = [field_name, op] \<and> key = field_name @ ''__'' @ op \<and>
           (\<forall>i. take 2 (drop i key) = ''__'' \<longrightarrow> i \<le> length field_name) \<and>
           (\<forall>i. take 2 (drop i key) = ''__'' \<and> i \<noteq> length field_name \<longrightarrow>
                [take i key, drop (i + 2) key] \<noteq> [field_name, op]) \<and>
           parse_filter_item lib model (key, v) = compile_operator lib model field_name op v"
proof -
  have sep: "''__'' \<noteq> []" by simp
  from rsplit1_split[OF sep assms] obtain field_name op where
    s: "py_rsplit1 ''__'' key = [field_name, op]" and k: "key = field_name @ ''__'' @ op"
    and l: "\<forall>i. take (length ''__'') (drop i key) = ''__'' \<longrightarrow> i \<le> length field_name" by blast
  have l2: "\<forall>i. take 2 (drop i key) = ''__'' \<longrightarrow> i \<le> length field_name"
    using l by (simp add: numeral_2_eq_2)
  have d: "\<forall>i. take 2 (drop i key) = ''__'' \<and> i \<noteq> length field_name \<longrightarrow>
                [take i key, drop (i + 2) key] \<noteq> [field_name, op]"
  proof (intro allI impI)
    fix i assume a: "take 2 (drop i key) = ''__'' \<and> i \<noteq> length field_name"
    with l2 have "i < length field_name" by (simp add: le_neq_implies_less)
    then have "i < length key" using k by simp
    then have "length (take i key) = i" by simp
    with a show "[take i key, drop (i + 2) key] \<noteq> [field_name, op]" by auto
  qed
  from parse_filter_item_split[OF assms s]
  have "parse_filter_item lib model (key, v) = compile_operator lib model field_name op v" .
  with s k l2 d show ?thesis by blast
qed

text \<open>
  The key \<open>a__b__gt\<close> resolves the field \<open>a__b\<close> with the operator \<open>gt\<close>.
\<close>

theorem C7_key_split_witness:
  "py_contains ''__'' ''a__b__gt'' \<and>
   py_rsplit1 ''__'' ''a__b__gt'' = [''a__b'', ''gt''] \<and>
   parse_filter_item example_library example_model (''a__b__gt'', VInt 5) =
     compile_operator example_library example_model ''a__b'' ''gt'' (VInt 5) \<and>
   compile_operator example_library example_model ''a__b'' ''gt'' (VInt 5) =
     ([], Inr [Call ''__gt__'' (Column ''a__b'') [VInt 5]])"
proof -
  have c: "py_contains ''__'' ''a__b__gt''" by simp
  have r: "py_rsplit1 ''__'' ''a__b__gt'' = [''a__b'', ''gt'']" by (simp add: py_rsplit1_def)
  from C7_key_split_at_last_delimiter[OF c, of example_library example_model "VInt 5"] r
  have p: "parse_filter_item example_library example_model (''a__b__gt'', VInt 5) =
     compile_operator example_library example_model ''a__b'' ''gt'' (VInt 5)" by auto
  have e: "compile_operator example_library example_model ''a__b'' ''gt'' (VInt 5) =
     ([], Inr [Call ''__gt__'' (Column ''a__b'') [VInt 5]])"
    by (simp add: compile_operator_def get_column_def example_model_def get_sqlalchemy_filter_def
          sequence_operators_def arithmetic_operators_def SUPPORTED_FILTERS_def
          call_builder_def example_library_def)
  from c r p e show ?thesis by blast
qed

text \<open>
  Claim C6, as amended. Take a key \<open>f__op\<close> on a column \<open>f\<close> with \<open>op\<close> one of
  \<open>in\<close>, \<open>not_in\<close>, \<open>between\<close>. When the value is not a tuple, list or set, the
  operator lookup raises the invalid-value \<open>SelectOperatorError\<close> as its first step,
  without a warning; the key yields that error and no predicate, before any builder is
  called, and so does the compilation of any mapping whose earlier keys compile. When the
  value is a tuple, list or set, the outcome of the key is that of its one builder call,
  made with the value as one argument for \<open>in\<close> and \<open>not_in\<close> and with the value
  unpacked for \<open>between\<close>: the error the call raises, or the single predicate it
  returns. The call returns when the library accepts it and, for \<open>between\<close>, two or
  three bounds are unpacked.
\<close>

theorem C6_sequence_operators_need_sequence:
  assumes "op \<in> set sequence_operators" and "model f = Some column"
  shows "(\<not> is_tuple_list_set v \<longrightarrow>
            get_sqlalchemy_filter op v a = ([], Inl (SelectOperatorError (sequence_value_message op))) \<and>
            parse_filter_item lib model (f @ ''__'' @ op, v) =
              ([], Inl (SelectOperatorError (sequence_value_message op))) \<and>
            (\<forall>ws fs. parse_filters lib model before = (ws, Inr fs) \<longrightarrow>
               parse_filters lib model (before @ (f @ ''__'' @ op, v) # after) =
                 (ws, Inl (SelectOperatorError (sequence_value_message op))))) \<and>
         (is_tuple_list_set v \<longrightarrow>
            parse_filters lib model [(f @ ''__'' @ op, v)] =
              ([], case call_builder lib (builder_method op) column (positional_args op v) of
                     Inl e \<Rightarrow> Inl e
                   | Inr p \<Rightarrow> Inr [p])) \<and>
         (is_tuple_list_set v \<and>
          (op = ''between'' \<longrightarrow>
             length (positional_args op v) = 2 \<or> length (positional_args op v) = 3) \<and>
          lib (builder_method op) column (positional_args op v) = None \<longrightarrow>
            parse_filters lib model [(f @ ''__'' @ op, v)] =
              ([], Inr [Call (builder_method op) column (positional_args op v)]))"
proof -
  have item: "parse_filter_item lib model (f @ ''__'' @ op, v) = compile_operator lib model f op v"
    by (rule parse_filter_item_key[OF sequence_no_delimiter[OF assms(1)]])
  have col: "get_column model f = Inr column" using assms(2) by (simp add: get_column_def)
  have bad: "\<not> is_tuple_list_set v \<longrightarrow>
            get_sqlalchemy_filter op v a = ([], Inl (SelectOperatorError (sequence_value_message op))) \<and>
            parse_filter_item lib model (f @ ''__'' @ op, v) =
              ([], Inl (SelectOperatorError (sequence_value_message op))) \<and>
            (\<forall>ws fs. parse_filters lib model before = (ws, Inr fs) \<longrightarrow>
               parse_filters lib model (before @ (f @ ''__'' @ op, v) # after) =
                 (ws, Inl (SelectOperatorError (sequence_value_message op))))"
  proof
    assume bad: "\<not> is_tuple_list_set v"
    have g: "get_sqlalchemy_filter op v a = ([], Inl (SelectOperatorError (sequence_value_message op)))"
      by (rule lookup_bad_shape[OF assms(1) bad])
    have i: "parse_filter_item lib model (f @ ''__'' @ op, v) =
              ([], Inl (SelectOperatorError (sequence_value_message op)))"
      using item col lookup_bad_shape[OF assms(1) bad, of True] by (simp add: compile_operator_def)
    have "\<forall>ws fs. parse_filters lib model before = (ws, Inr fs) \<longrightarrow>
               parse_filters lib model (before @ (f @ ''__'' @ op, v) # after) =
                 (ws, Inl (SelectOperatorError (sequence_value_message op)))"
      using parse_filters_failing_item[OF _ i] by auto
    with g i show "get_sqlalchemy_filter op v a = ([], Inl (SelectOperatorError (sequence_value_message op))) \<and>
            parse_filter_item lib model (f @ ''__'' @ op, v) =
              ([], Inl (SelectOperatorError (sequence_value_message op))) \<and>
            (\<forall>ws fs. parse_filters lib model before = (ws, Inr fs) \<longrightarrow>
               parse_filters lib model (before @ (f @ ''__'' @ op, v) # after) =
                 (ws, Inl (SelectOperatorError (sequence_value_message op))))" by blast
  qed
  have good: "is_tuple_list_set v \<longrightarrow>
            parse_filters lib model [(f @ ''__'' @ op, v)] =
              ([], case call_builder lib (builder_method op) column (positional_args op v) of
                     Inl e \<Rightarrow> Inl e
                   | Inr p \<Rightarrow> Inr [p])"
    using item compile_sequence_operator[where lib=lib and model=model and f=f, OF assms(1) _ assms(2)]
    by (auto simp: parse_filters_single split: sum.splits)
  have bm: "builder_method op = ''between'' \<longleftrightarrow> op = ''between''"
    using assms(1) by (auto simp: sequence_operators_def builder_method_def SUPPORTED_FILTERS_def)
  have acc: "is_tuple_list_set v \<and>
          (op = ''between'' \<longrightarrow>
             length (positional_args op v) = 2 \<or> length (positional_args op v) = 3) \<and>
          lib (builder_method op) column (positional_args op v) = None \<longrightarrow>
            parse_filters lib model [(f @ ''__'' @ op, v)] =
              ([], Inr [Call (builder_method op) column (positional_args op v)])"
    using good bm by (auto simp: call_builder_def)
  from bad good acc show ?thesis by blast
qed

text \<open>
  \<open>{"f__in": 5}\<close> fails and \<open>{"f__in": [1, 2, 3]}\<close> succeeds.
\<close>

theorem C6_sequence_operators_witness:
  "''in'' \<in> set sequence_operators \<and> example_model ''f'' = Some (Column ''f'') \<and>
   \<not> is_tuple_list_set (VInt 5) \<and>
   parse_filters example_library example_model [(''f__in'', VInt 5)] =
     ([], Inl (SelectOperatorError ''The value for <in> must be tuple, list, or set.'')) \<and>
   is_tuple_list_set (VList [VInt 1, VInt 2, VInt 3]) \<and>
   example_library ''in_'' (Column ''f'') [VList [VInt 1, VInt 2, VInt 3]] = None \<and>
   parse_filters example_library example_model [(''f__in'', VList [VInt 1, VInt 2, VInt 3])] =
     ([], Inr [Call ''in_'' (Column ''f'') [VList [VInt 1, VInt 2, VInt 3]]])"
proof -
  have a: "''in'' \<in> set sequence_operators" by (simp add: sequence_operators_def)
  have b: "example_model ''f'' = Some (Column ''f'')" by (simp add: example_model_def)
  have e: "parse_filters example_library example_model [] = ([], Inr [])" by simp
  have bm: "builder_method ''in'' = ''in_''" by (simp add: builder_method_def SUPPORTED_FILTERS_def)
  have l: "example_library ''in_'' (Column ''f'') [VList [VInt 1, VInt 2, VInt 3]] = None"
    by (simp add: example_library_def)
  from C6_sequence_operators_need_sequence[where op="''in''" and model=example_model
        and lib=example_library
        and f="''f''" and column="Column ''f''" and v="VInt 5" and a=True and before="[]"
        and after="[]", OF a b] e
  have 1: "parse_filters example_library example_model [(''f__in'', VInt 5)] =
     ([], Inl (SelectOperatorError ''The value for <in> must be tuple, list, or set.''))"
    by (simp add: sequence_value_message_def)
  from C6_sequence_operators_need_sequence[where op="''in''" and model=example_model
        and lib=example_library
        and f="''f''" and column="Column ''f''" and v="VList [VInt 1, VInt 2, VInt 3]" and a=True
        and before="[]" and after="[]", OF a b, THEN conjunct2, THEN conjunct2] l
  have 2: "parse_filters example_library example_model [(''f__in'', VList [VInt 1, VInt 2, VInt 3])] =
     ([], Inr [Call ''in_'' (Column ''f'') [VList [VInt 1, VInt 2, VInt 3]]])"
    by (simp add: bm positional_args_def)
  from a b l 1 2 show ?thesis by simp
qed

text \<open>
  Claim C6 as stated fails on two inputs. For the key \<open>nope__in\<close> with the value 5, on
  a field the entity does not have, the compilation fails with \<open>ModelColumnError\<close>:
  the column is resolved before the operator is looked up. For the key
  \<open>f__between\<close> with the list \<open>[1]\<close> the value is a list and the compilation
  fails: the call of \<open>between\<close> with one bound raises \<open>TypeError\<close>.
\<close>

theorem C6_sequence_operators_counterexample:
  "''in'' \<in> set sequence_operators \<and> \<not> is_tuple_list_set (VInt 5) \<and>
   parse_filters example_library example_model [(''nope__in'', VInt 5)] =
     ([], Inl (ModelColumnError ''nope'')) \<and>
   ''between'' \<in> set sequence_operators \<and> is_tuple_list_set (VList [VInt 1]) \<and>
   parse_filters example_library example_model [(''f__between'', VList [VInt 1])] =
     ([], Inl TypeError)"
proof -
  have a: "''in'' \<in> set sequence_operators" "''between'' \<in> set sequence_operators"
    by (simp_all add: sequence_operators_def)
  have k1: "parse_filter_item example_library example_model (''nope__in'', VInt 5) =
              compile_operator example_library example_model ''nope'' ''in'' (VInt 5)"
    using parse_filter_item_key[OF sequence_no_delimiter[OF a(1)], of example_library example_model "''nope''"]
    by simp
  have 1: "compile_operator example_library example_model ''nope'' ''in'' (VInt 5) =
             ([], Inl (ModelColumnError ''nope''))"
    by (simp add: compile_operator_def get_column_def example_model_def)
  have k2: "parse_filter_item example_library example_model (''f__between'', VList [VInt 1]) =
              compile_operator example_library example_model ''f'' ''between'' (VList [VInt 1])"
    using parse_filter_item_key[OF sequence_no_delimiter[OF a(2)], of example_library example_model "''f''"]
    by simp
  have m: "example_model ''f'' = Some (Column ''f'')" by (simp add: example_model_def)
  have bm: "builder_method ''between'' = ''between''"
    by (simp add: builder_method_def SUPPORTED_FILTERS_def)
  have 2: "compile_operator example_library example_model ''f'' ''between'' (VList [VInt 1]) =
             ([], Inl TypeError)"
    using compile_sequence_operator[where lib=example_library and model=example_model
            and f="''f''" and op="''between''" and v="VList [VInt 1]", OF a(2) _ m]
    by (simp add: bm positional_args_def call_builder_def)
  from a k1 1 k2 2 show ?thesis by simp
qed




text \<open>
  Claim C4, as amended. Take a key \<open>f__aop\<close> on a column \<open>f\<close> with an arithmetic
  operator \<open>aop\<close> and a mapping value whose \<open>value\<close> is \<open>adv\<close> and whose
  \<open>condition\<close> is a mapping \<open>conds\<close>. Call an entry of \<open>conds\<close> a comparison
  entry when its operator is known and not arithmetic and its operand is a tuple, list or
  set for \<open>in\<close>, \<open>not_in\<close> and \<open>between\<close>; say that it builds when its two
  builder calls return: the arithmetic call \<open>aop(f, adv)\<close> and the comparison of that
  result with the entry's operand (the operand of \<open>between\<close> unpacked, into two or
  three bounds). When every entry is a comparison entry that builds, the key appends
  exactly one predicate without a warning: the conjunction, over the entries in order, of
  these comparisons. When the entries before an arithmetic operator are all comparison
  entries that build, the key fails with the nested-arithmetic \<open>SelectOperatorError\<close>
  naming that operator.
\<close>

theorem C4_conditional_value_group:
  assumes "aop \<in> set arithmetic_operators" and "model f = Some column"
    and "map_of d ''value'' = Some adv" and "map_of d ''condition'' = Some (VDict conds)"
  shows "(list_all comparison_entry conds \<and>
          list_all (comparison_builds lib (builder_method aop) column adv) conds \<longrightarrow>
            parse_filter_item lib model (f @ ''__'' @ aop, VDict d) =
              ([], Inr [SqlAnd (map (compare_with (Call (builder_method aop) column [adv])) conds)])) \<and>
         (\<forall>pre cop cv post.
            conds = pre @ (cop, cv) # post \<and> list_all comparison_entry pre \<and>
            list_all (comparison_builds lib (builder_method aop) column adv) pre \<and>
            cop \<in> set arithmetic_operators \<longrightarrow>
            parse_filter_item lib model (f @ ''__'' @ aop, VDict d) =
              ([], Inl (SelectOperatorError (nested_arithmetic_message cop))))"
proof -
  have item: "parse_filter_item lib model (f @ ''__'' @ aop, VDict d) =
                compile_operator lib model f aop (VDict d)"
    by (rule parse_filter_item_key[OF arithmetic_no_delimiter[OF assms(1)]])
  note grp = compile_conditional_group[where model=model and f=f and lib=lib, OF assms]
  have a: "list_all comparison_entry conds \<and>
          list_all (comparison_builds lib (builder_method aop) column adv) conds \<longrightarrow>
            parse_filter_item lib model (f @ ''__'' @ aop, VDict d) =
              ([], Inr [SqlAnd (map (compare_with (Call (builder_method aop) column [adv])) conds)])"
    using item grp condition_filters_ok[of conds lib "builder_method aop" column adv] by simp
  have b: "\<forall>pre cop cv post.
            conds = pre @ (cop, cv) # post \<and> list_all comparison_entry pre \<and>
            list_all (comparison_builds lib (builder_method aop) column adv) pre \<and>
            cop \<in> set arithmetic_operators \<longrightarrow>
            parse_filter_item lib model (f @ ''__'' @ aop, VDict d) =
              ([], Inl (SelectOperatorError (nested_arithmetic_message cop)))"
  proof (intro allI impI)
    fix pre cop cv post
    assume h: "conds = pre @ (cop, cv) # post \<and> list_all comparison_entry pre \<and>
            list_all (comparison_builds lib (builder_method aop) column adv) pre \<and>
            cop \<in> set arithmetic_operators"
    then have "condition_filters lib (Some (builder_method aop)) column adv conds =
       ([], Inl (SelectOperatorError (nested_arithmetic_message cop)))"
      using condition_filters_nested[of pre lib "builder_method aop" column adv cop cv post]
      by simp
    with item grp show "parse_filter_item lib model (f @ ''__'' @ aop, VDict d) =
              ([], Inl (SelectOperatorError (nested_arithmetic_message cop)))" by simp
  qed
  from a b show ?thesis by blast
qed

text \<open>
  \<open>{"f__mul": {"value": 2, "condition": {"gt": 10}}}\<close> yields the one predicate
  \<open>and_((f * 2) > 10)\<close>; with \<open>add\<close> after \<open>gt\<close> in the condition it fails with
  the nested-arithmetic error.
\<close>

theorem C4_conditional_value_witness:
  "''mul'' \<in> set arithmetic_operators \<and> ''add'' \<in> set arithmetic_operators \<and>
   list_all comparison_entry [(''gt'', VInt 10)] \<and>
   list_all (comparison_builds example_library (builder_method ''mul'') (Column ''f'') (VInt 2))
     [(''gt'', VInt 10)] \<and>
   parse_filter_item example_library example_model
     (''f__mul'', VDict [(''value'', VInt 2), (''condition'', VDict [(''gt'', VInt 10)])]) =
     ([], Inr [SqlAnd [Call ''__gt__'' (Call ''__mul__'' (Column ''f'') [VInt 2]) [VInt 10]]]) \<and>
   parse_filter_item example_library example_model
     (''f__mul'', VDict [(''value'', VInt 2),
                          (''condition'', VDict [(''gt'', VInt 10), (''add'', VInt 1)])]) =
     ([], Inl (SelectOperatorError ''Nested arithmetic operations are not allowed: add''))"
proof -
  have mul: "''mul'' \<in> set arithmetic_operators" by (simp add: arithmetic_operators_def)
  have add: "''add'' \<in> set arithmetic_operators" by (simp add: arithmetic_operators_def)
  have m: "example_model ''f'' = Some (Column ''f'')" by (simp add: example_model_def)
  have ok: "list_all comparison_entry [(''gt'', VInt 10)]" by (simp add: gt_comparison)
  have bm: "builder_method ''mul'' = ''__mul__''" "builder_method ''gt'' = ''__gt__''"
    by (simp_all add: builder_method_def SUPPORTED_FILTERS_def)
  have bd: "list_all (comparison_builds example_library (builder_method ''mul'') (Column ''f'') (VInt 2))
     [(''gt'', VInt 10)]"
    by (simp add: comparison_builds_def bm call_builder_def example_library_def compare_with_def
          positional_args_def)
  have dv1: "map_of [(''value'', VInt 2), (''condition'', VDict [(''gt'', VInt 10)])]
              ''value'' = Some (VInt 2)" by simp
  have dc1: "map_of [(''value'', VInt 2), (''condition'', VDict [(''gt'', VInt 10)])]
              ''condition'' = Some (VDict [(''gt'', VInt 10)])" by simp
  have 1: "parse_filter_item example_library example_model
     (''f__mul'', VDict [(''value'', VInt 2), (''condition'', VDict [(''gt'', VInt 10)])]) =
     ([], Inr [SqlAnd [Call ''__gt__'' (Call ''__mul__'' (Column ''f'') [VInt 2]) [VInt 10]]])"
    using C4_conditional_value_group[where model=example_model and f="''f''" and aop="''mul''"
        and lib=example_library, OF mul m dv1 dc1, THEN conjunct1] ok bd
    by (simp add: bm compare_with_def positional_args_def)
  have dv: "map_of [(''value'', VInt 2), (''condition'', VDict [(''gt'', VInt 10), (''add'', VInt 1)])]
              ''value'' = Some (VInt 2)" by simp
  have dc: "map_of [(''value'', VInt 2), (''condition'', VDict [(''gt'', VInt 10), (''add'', VInt 1)])]
              ''condition'' = Some (VDict [(''gt'', VInt 10), (''add'', VInt 1)])" by simp
  note nested = C4_conditional_value_group[where model=example_model and f="''f''"
        and aop="''mul''" and lib=example_library, OF mul m dv dc, THEN conjunct2, rule_format,
        of "[(''gt'', VInt 10)]" "''add''" "VInt 1" "[]"]
  have "parse_filter_item example_library example_model
     (''f__mul'', VDict [(''value'', VInt 2),
                          (''condition'', VDict [(''gt'', VInt 10), (''add'', VInt 1)])]) =
     ([], Inl (SelectOperatorError (nested_arithmetic_message ''add'')))"
    using nested ok bd add by simp
  then have 2: "parse_filter_item example_library example_model
     (''f__mul'', VDict [(''value'', VInt 2),
                          (''condition'', VDict [(''gt'', VInt 10), (''add'', VInt 1)])]) =
     ([], Inl (SelectOperatorError ''Nested arithmetic operations are not allowed: add''))"
    by (simp add: nested_arithmetic_message_def)
  from mul add ok bd 1 2 show ?thesis by blast
qed

text \<open>
  Claim C4 as stated fails when an entry before the arithmetic operator raises first:
  with the condition \<open>{"in": 5, "add": 1}\<close> the compilation fails with the
  invalid-value error of \<open>in\<close>, which is not the nested-arithmetic error, and nothing
  is appended. With an operator the table does not have, \<open>{"frobnicate": 1}\<close>, the
  missing builder is called and the compilation aborts with \<open>TypeError\<close> instead of
  appending a conjunction.
\<close>

theorem C4_conditional_value_counterexample:
  "''mul'' \<in> set arithmetic_operators \<and> ''add'' \<in> set arithmetic_operators \<and>
   snd (parse_filters example_library example_model
          [(''f__mul'', VDict [(''value'', VInt 2),
                               (''condition'', VDict [(''in'', VInt 5), (''add'', VInt 1)])])])
     = Inl (SelectOperatorError ''The value for <in> must be tuple, list, or set.'') \<and>
   SelectOperatorError ''The value for <in> must be tuple, list, or set.''
     \<noteq> SelectOperatorError (nested_arithmetic_message ''add'') \<and>
   snd (parse_filters example_library example_model
          [(''f__mul'', VDict [(''value'', VInt 2),
                               (''condition'', VDict [(''frobnicate'', VInt 1)])])])
     = Inl TypeError"
proof -
  have mul: "''mul'' \<in> set arithmetic_operators" by (simp add: arithmetic_operators_def)
  have add: "''add'' \<in> set arithmetic_operators" by (simp add: arithmetic_operators_def)
  have m: "example_model ''f'' = Some (Column ''f'')" by (simp add: example_model_def)
  have key: "\<And>v. parse_filter_item example_library example_model (''f__mul'', v) =
                   compile_operator example_library example_model ''f'' ''mul'' v"
    using parse_filter_item_key[OF arithmetic_no_delimiter[OF mul], of example_library
            example_model "''f''"] by simp
  have i: "''in'' \<in> set sequence_operators" by (simp add: sequence_operators_def)
  have u: "\<not> known_operator ''frobnicate''" by (simp add: known_operator_def SUPPORTED_FILTERS_def)
  have bm: "builder_method ''mul'' = ''__mul__''"
    by (simp add: builder_method_def SUPPORTED_FILTERS_def)
  have 1: "compile_operator example_library example_model ''f'' ''mul''
             (VDict [(''value'', VInt 2), (''condition'', VDict [(''in'', VInt 5), (''add'', VInt 1)])])
           = ([], Inl (SelectOperatorError (sequence_value_message ''in'')))"
    using compile_conditional_group[where model=example_model and f="''f''" and aop="''mul''"
        and lib=example_library
        and d="[(''value'', VInt 2), (''condition'', VDict [(''in'', VInt 5), (''add'', VInt 1)])]"
        and adv="VInt 2" and conds="[(''in'', VInt 5), (''add'', VInt 1)]", OF mul m]
      lookup_bad_shape[OF i, of "VInt 5" False]
    by simp
  have 2: "compile_operator example_library example_model ''f'' ''mul''
             (VDict [(''value'', VInt 2), (''condition'', VDict [(''frobnicate'', VInt 1)])])
           = ([unsupported_warning ''frobnicate''], Inl TypeError)"
    using compile_conditional_group[where model=example_model and f="''f''" and aop="''mul''"
        and lib=example_library
        and d="[(''value'', VInt 2), (''condition'', VDict [(''frobnicate'', VInt 1)])]"
        and adv="VInt 2" and conds="[(''frobnicate'', VInt 1)]", OF mul m]
      lookup_unknown[OF u, of "VInt 1" False]
    by (simp add: bm call_builder_def example_library_def)
  have ne: "SelectOperatorError ''The value for <in> must be tuple, list, or set.''
     \<noteq> SelectOperatorError (nested_arithmetic_message ''add'')"
    by (simp add: nested_arithmetic_message_def)
  from mul add ne key 1 2 show ?thesis by (simp add: sequence_value_message_def)
qed

text \<open>
  Claim C5, as amended. Take a key \<open>f__or\<close> on a column \<open>f\<close> whose value is a
  mapping \<open>items\<close> of operator names to values. Suppose that no entry uses \<open>in\<close> or
  \<open>not_in\<close> with a value that is not a tuple, list or set, that no entry is
  \<open>between\<close>, and that the library accepts the call of every known entry's builder with
  the column and the entry's value. Then the key appends exactly one predicate: the
  disjunction, in order, of each known operator's builder applied to the column and the
  entry's value; entries with an operator the table does not have are skipped. When the
  entries before an \<open>in\<close>, \<open>not_in\<close> or \<open>between\<close> entry whose value is not a
  tuple, list or set are such entries, the key fails with the invalid-value
  \<open>SelectOperatorError\<close> of that entry.
\<close>

theorem C5_or_group_disjunction:
  assumes "model f = Some column"
  shows "(list_all value_shape_ok items \<and> list_all (or_entry_builds lib column) items \<longrightarrow>
            snd (parse_filter_item lib model (f @ ''__or'', VDict items)) =
              Inr [SqlOr (map (or_term column) (filter (\<lambda>e. known_operator (fst e)) items))]) \<and>
         (\<forall>pre op v post.
            items = pre @ (op, v) # post \<and> list_all value_shape_ok pre \<and>
            list_all (or_entry_builds lib column) pre \<and> \<not> value_shape_ok (op, v) \<longrightarrow>
            snd (parse_filter_item lib model (f @ ''__or'', VDict items)) =
              Inl (SelectOperatorError (sequence_value_message op)))"
proof -
  note grp = compile_or_group[where model=model and f=f and items=items and lib=lib, OF assms]
  have a: "list_all value_shape_ok items \<and> list_all (or_entry_builds lib column) items \<longrightarrow>
            snd (parse_filter_item lib model (f @ ''__or'', VDict items)) =
              Inr [SqlOr (map (or_term column) (filter (\<lambda>e. known_operator (fst e)) items))]"
    using grp or_filters_ok[of items lib column] by (auto simp: or_key)
  have b: "\<forall>pre op v post.
            items = pre @ (op, v) # post \<and> list_all value_shape_ok pre \<and>
            list_all (or_entry_builds lib column) pre \<and> \<not> value_shape_ok (op, v) \<longrightarrow>
            snd (parse_filter_item lib model (f @ ''__or'', VDict items)) =
              Inl (SelectOperatorError (sequence_value_message op))"
  proof (intro allI impI)
    fix pre op v post
    assume h: "items = pre @ (op, v) # post \<and> list_all value_shape_ok pre \<and>
            list_all (or_entry_builds lib column) pre \<and> \<not> value_shape_ok (op, v)"
    then have "snd (or_filters lib column items) = Inl (SelectOperatorError (sequence_value_message op))"
      using or_filters_bad[of pre lib column op v post] by (simp add: value_shape_ok_def)
    then show "snd (parse_filter_item lib model (f @ ''__or'', VDict items)) =
              Inl (SelectOperatorError (sequence_value_message op))"
      using grp by (cases "or_filters lib column items") (simp add: or_key)
  qed
  from a b show ?thesis by blast
qed

lemma example_or_entries:
  "or_entry_builds example_library (Column ''f'') (''gt'', VInt 5)"
  "or_entry_builds example_library (Column ''f'') (''lt'', VInt 1)"
  "or_entry_builds example_library (Column ''f'') (''frobnicate'', VInt 0)"
  by (simp_all add: or_entry_builds_def gt_lt_entries example_library_def)

text \<open>
  \<open>{"f__or": {"gt": 5, "frobnicate": 0, "lt": 1}}\<close> yields the single predicate
  \<open>or_(f > 5, f < 1)\<close>; \<open>{"f__or": {"gt": 5, "in": 5}}\<close> fails.
\<close>

theorem C5_or_group_witness:
  "example_model ''f'' = Some (Column ''f'') \<and>
   list_all value_shape_ok [(''gt'', VInt 5), (''frobnicate'', VInt 0), (''lt'', VInt 1)] \<and>
   list_all (or_entry_builds example_library (Column ''f''))
     [(''gt'', VInt 5), (''frobnicate'', VInt 0), (''lt'', VInt 1)] \<and>
   snd (parse_filter_item example_library example_model
          (''f__or'', VDict [(''gt'', VInt 5), (''frobnicate'', VInt 0), (''lt'', VInt 1)])) =
     Inr [SqlOr [Call ''__gt__'' (Column ''f'') [VInt 5], Call ''__lt__'' (Column ''f'') [VInt 1]]] \<and>
   \<not> value_shape_ok (''in'', VInt 5) \<and>
   snd (parse_filter_item example_library example_model
          (''f__or'', VDict [(''gt'', VInt 5), (''in'', VInt 5)])) =
     Inl (SelectOperatorError ''The value for <in> must be tuple, list, or set.'')"
proof -
  have m: "example_model ''f'' = Some (Column ''f'')" by (simp add: example_model_def)
  have ok: "list_all value_shape_ok [(''gt'', VInt 5), (''frobnicate'', VInt 0), (''lt'', VInt 1)]"
    by (simp add: gt_lt_entries)
  have bd: "list_all (or_entry_builds example_library (Column ''f''))
     [(''gt'', VInt 5), (''frobnicate'', VInt 0), (''lt'', VInt 1)]"
    by (simp add: example_or_entries)
  have bad: "\<not> value_shape_ok (''in'', VInt 5)"
    by (simp add: value_shape_ok_def sequence_operators_def)
  have 1: "snd (parse_filter_item example_library example_model
          (''f__or'', VDict [(''gt'', VInt 5), (''frobnicate'', VInt 0), (''lt'', VInt 1)])) =
     Inr [SqlOr [Call ''__gt__'' (Column ''f'') [VInt 5], Call ''__lt__'' (Column ''f'') [VInt 1]]]"
    using C5_or_group_disjunction[where model=example_model and f="''f''" and lib=example_library
        and items="[(''gt'', VInt 5), (''frobnicate'', VInt 0), (''lt'', VInt 1)]", OF m,
        THEN conjunct1] ok bd
    by (simp add: gt_lt_entries or_term_def)
  note second = C5_or_group_disjunction[where model=example_model and f="''f''"
        and lib=example_library
        and items="[(''gt'', VInt 5), (''in'', VInt 5)]", OF m, THEN conjunct2, rule_format,
        of "[(''gt'', VInt 5)]" "''in''" "VInt 5" "[]"]
  have 2: "snd (parse_filter_item example_library example_model
                  (''f__or'', VDict [(''gt'', VInt 5), (''in'', VInt 5)])) =
     Inl (SelectOperatorError ''The value for <in> must be tuple, list, or set.'')"
    using second bad by (simp add: gt_lt_entries example_or_entries sequence_value_message_def)
  from m ok bd bad 1 2 show ?thesis by blast
qed

text \<open>
  Claim C5 as stated fails on \<open>{"f__or": {"in": 5}}\<close>: the value is a mapping of
  operator names to values, and the compilation raises the invalid-value error instead of
  appending a predicate. It also fails on \<open>{"f__or": {"between": [1, 2]}}\<close>, where the
  call of \<open>between\<close> with the list as its one argument raises \<open>TypeError\<close>, and,
  with a library that rejects the comparison of a column with \<open>None\<close>, on
  \<open>{"f__or": {"gt": None}}\<close>.
\<close>

theorem C5_or_group_counterexample:
  "snd (parse_filters example_library example_model [(''f__or'', VDict [(''in'', VInt 5)])]) =
     Inl (SelectOperatorError ''The value for <in> must be tuple, list, or set.'') \<and>
   snd (parse_filters example_library example_model
          [(''f__or'', VDict [(''between'', VList [VInt 1, VInt 2])])]) = Inl TypeError \<and>
   snd (parse_filters example_library example_model [(''f__or'', VDict [(''gt'', VNone)])]) =
     Inl ArgumentError"
proof -
  have m: "example_model ''f'' = Some (Column ''f'')" by (simp add: example_model_def)
  have i: "''in'' \<in> set sequence_operators" by (simp add: sequence_operators_def)
  have 1: "compile_operator example_library example_model ''f'' ''or'' (VDict [(''in'', VInt 5)]) =
      ([unsupported_warning ''or''], Inl (SelectOperatorError (sequence_value_message ''in'')))"
    using compile_or_group[where model=example_model and f="''f''" and items="[(''in'', VInt 5)]"
            and lib=example_library, OF m]
      lookup_bad_shape[OF i, of "VInt 5" True]
    by simp
  have kb: "known_operator ''between''" "builder_method ''between'' = ''between''"
    "value_shape_ok (''between'', VList [VInt 1, VInt 2])"
    by (simp_all add: known_operator_def builder_method_def SUPPORTED_FILTERS_def
          value_shape_ok_def)
  have 2: "compile_operator example_library example_model ''f'' ''or''
             (VDict [(''between'', VList [VInt 1, VInt 2])]) =
      ([unsupported_warning ''or''], Inl TypeError)"
    using compile_or_group[where model=example_model and f="''f''"
            and items="[(''between'', VList [VInt 1, VInt 2])]" and lib=example_library, OF m]
      lookup_known[OF kb(1) kb(3), of True] call_between_one_argument
    by (simp add: kb)
  have 3: "compile_operator example_library example_model ''f'' ''or'' (VDict [(''gt'', VNone)]) =
      ([unsupported_warning ''or''], Inl ArgumentError)"
    using compile_or_group[where model=example_model and f="''f''"
            and items="[(''gt'', VNone)]" and lib=example_library, OF m]
      lookup_known[OF gt_lt_entries(1) gt_lt_entries(6), of True VNone]
    by (simp add: gt_lt_entries call_builder_def example_library_def)
  from 1 2 3 show ?thesis
    using or_key[of example_library example_model "''f''"]
    by (simp add: sequence_value_message_def)
qed

text \<open>
  Claim C9, as amended. The operator table has no entry \<open>or\<close>. For a key \<open>f__or\<close>
  on a column \<open>f\<close>, whatever the value, the first warning of the key is the
  unsupported-operator warning naming \<open>or\<close>: the lookup of line 89 precedes the
  \<open>or\<close> branch. The disjunction is built and appended all the same when the inner
  lookups and builder calls raise nothing: for a mapping in which no entry uses \<open>in\<close>
  or \<open>not_in\<close> with a value that is not a tuple, list or set, no entry is
  \<open>between\<close> and the library accepts the call of every known entry, the key yields
  that warning, then one warning for each inner operator the table does not have, and the
  one disjunction of the known operators' predicates. When no inner operator is in the
  table, the empty disjunction \<open>or_()\<close> is appended.
\<close>

theorem C9_or_key_warns_and_still_builds:
  assumes "model f = Some column"
  shows "\<not> known_operator ''or'' \<and>
         (\<exists>ws. fst (parse_filter_item lib model (f @ ''__or'', v)) = unsupported_warning ''or'' # ws) \<and>
         (list_all value_shape_ok items \<and> list_all (or_entry_builds lib column) items \<longrightarrow>
            parse_filter_item lib model (f @ ''__or'', VDict items) =
              (unsupported_warning ''or'' #
                 map (\<lambda>e. unsupported_warning (fst e)) (filter (\<lambda>e. \<not> known_operator (fst e)) items),
               Inr [SqlOr (map (or_term column) (filter (\<lambda>e. known_operator (fst e)) items))])) \<and>
         (list_all (\<lambda>e. \<not> known_operator (fst e)) items \<longrightarrow>
            parse_filter_item lib model (f @ ''__or'', VDict items) =
              (unsupported_warning ''or'' # map (\<lambda>e. unsupported_warning (fst e)) items,
               Inr [SqlOr []]))"
proof -
  have u: "\<not> known_operator ''or''" by (simp add: known_operator_def SUPPORTED_FILTERS_def)
  have col: "get_column model f = Inr column" using assms by (simp add: get_column_def)
  have w: "\<exists>ws. fst (parse_filter_item lib model (f @ ''__or'', v)) = unsupported_warning ''or'' # ws"
    using col lookup_unknown[OF u, of v True]
    by (cases "py_items v")
       (auto simp: or_key compile_operator_def split: prod.splits sum.splits)
  note grp = compile_or_group[where model=model and f=f and items=items and lib=lib, OF assms]
  have a: "list_all value_shape_ok items \<and> list_all (or_entry_builds lib column) items \<longrightarrow>
            parse_filter_item lib model (f @ ''__or'', VDict items) =
              (unsupported_warning ''or'' #
                 map (\<lambda>e. unsupported_warning (fst e)) (filter (\<lambda>e. \<not> known_operator (fst e)) items),
               Inr [SqlOr (map (or_term column) (filter (\<lambda>e. known_operator (fst e)) items))])"
    using grp or_filters_ok[of items lib column] by (auto simp: or_key)
  have b: "list_all (\<lambda>e. \<not> known_operator (fst e)) items \<longrightarrow>
            parse_filter_item lib model (f @ ''__or'', VDict items) =
              (unsupported_warning ''or'' # map (\<lambda>e. unsupported_warning (fst e)) items,
               Inr [SqlOr []])"
    using grp or_filters_unknown[of items lib column] by (auto simp: or_key)
  from u w a b show ?thesis by blast
qed

text \<open>
  \<open>{"f__or": {"gt": 5, "lt": 1}}\<close> warns about \<open>or\<close> and appends
  \<open>or_(f > 5, f < 1)\<close>; \<open>{"f__or": {"frobnicate": 0}}\<close> warns twice and appends
  \<open>or_()\<close>.
\<close>

theorem C9_or_key_witness:
  "example_model ''f'' = Some (Column ''f'') \<and>
   list_all value_shape_ok [(''gt'', VInt 5), (''lt'', VInt 1)] \<and>
   list_all (or_entry_builds example_library (Column ''f'')) [(''gt'', VInt 5), (''lt'', VInt 1)] \<and>
   parse_filter_item example_library example_model
       (''f__or'', VDict [(''gt'', VInt 5), (''lt'', VInt 1)]) =
     ([unsupported_warning ''or''],
      Inr [SqlOr [Call ''__gt__'' (Column ''f'') [VInt 5], Call ''__lt__'' (Column ''f'') [VInt 1]]]) \<and>
   list_all (\<lambda>e. \<not> known_operator (fst e)) [(''frobnicate'', VInt 0)] \<and>
   parse_filter_item example_library example_model (''f__or'', VDict [(''frobnicate'', VInt 0)]) =
     ([unsupported_warning ''or'', unsupported_warning ''frobnicate''], Inr [SqlOr []])"
proof -
  have m: "example_model ''f'' = Some (Column ''f'')" by (simp add: example_model_def)
  have ok: "list_all value_shape_ok [(''gt'', VInt 5), (''lt'', VInt 1)]"
    by (simp add: gt_lt_entries)
  have bd: "list_all (or_entry_builds example_library (Column ''f'')) [(''gt'', VInt 5), (''lt'', VInt 1)]"
    by (simp add: example_or_entries)
  have un: "list_all (\<lambda>e. \<not> known_operator (fst e)) [(''frobnicate'', VInt 0)]"
    by (simp add: gt_lt_entries)
  have 1: "parse_filter_item example_library example_model
               (''f__or'', VDict [(''gt'', VInt 5), (''lt'', VInt 1)]) =
     ([unsupported_warning ''or''],
      Inr [SqlOr [Call ''__gt__'' (Column ''f'') [VInt 5], Call ''__lt__'' (Column ''f'') [VInt 1]]])"
    using C9_or_key_warns_and_still_builds[where model=example_model and f="''f''"
             and lib=example_library and items="[(''gt'', VInt 5), (''lt'', VInt 1)]", OF m,
             THEN conjunct2, THEN conjunct2, THEN conjunct1] ok bd
    by (simp add: gt_lt_entries or_term_def)
  have 2: "parse_filter_item example_library example_model (''f__or'', VDict [(''frobnicate'', VInt 0)]) =
     ([unsupported_warning ''or'', unsupported_warning ''frobnicate''], Inr [SqlOr []])"
    using C9_or_key_warns_and_still_builds[where model=example_model and f="''f''"
             and lib=example_library and items="[(''frobnicate'', VInt 0)]", OF m,
             THEN conjunct2, THEN conjunct2, THEN conjunct2] un
    by simp
  from m ok bd un 1 2 show ?thesis by blast
qed

text \<open>
  Claim C9 as stated fails on two inputs. The key \<open>nope__or\<close>, on a field the entity
  does not have, raises \<open>ModelColumnError\<close> before the lookup of \<open>or\<close>: no warning
  is emitted. The key \<open>f__or\<close> with \<open>{"in": 5}\<close> emits the warning and then fails
  with the invalid-value error: no disjunction is appended.
\<close>

theorem C9_or_key_counterexample:
  "parse_filters example_library example_model [(''nope__or'', VDict [(''gt'', VInt 5)])] =
     ([], Inl (ModelColumnError ''nope'')) \<and>
   parse_filters example_library example_model [(''f__or'', VDict [(''in'', VInt 5)])] =
     ([unsupported_warning ''or''],
      Inl (SelectOperatorError ''The value for <in> must be tuple, list, or set.''))"
proof -
  have m: "example_model ''f'' = Some (Column ''f'')" by (simp add: example_model_def)
  have i: "''in'' \<in> set sequence_operators" by (simp add: sequence_operators_def)
  have 1: "compile_operator example_library example_model ''nope'' ''or'' (VDict [(''gt'', VInt 5)]) =
             ([], Inl (ModelColumnError ''nope''))"
    by (simp add: compile_operator_def get_column_def example_model_def)
  have 2: "compile_operator example_library example_model ''f'' ''or'' (VDict [(''in'', VInt 5)]) =
      ([unsupported_warning ''or''], Inl (SelectOperatorError (sequence_value_message ''in'')))"
    using compile_or_group[where model=example_model and f="''f''" and items="[(''in'', VInt 5)]"
            and lib=example_library, OF m]
      lookup_bad_shape[OF i, of "VInt 5" True]
    by simp
  from 1 2 show ?thesis
    using or_key[of example_library example_model "''f''"]
      or_key[of example_library example_model "''nope''"]
    by (simp add: sequence_value_message_def)
qed



text \<open>
  Claim C10, as amended. With sort columns and sort orders both supplied (truthy) and in
  equal number after promotion, the clause of a column is ascending when its direction
  string is exactly \<open>asc\<close> and descending for every other string, whatever it is: when
  all columns resolve the call succeeds with exactly these clauses, in order. The only
  error the call can then raise is \<open>ModelColumnError\<close> for a column that does not
  resolve; no direction string raises.
\<close>

theorem C10_direction_not_validated:
  assumes "truthy sort_columns" and "truthy sort_orders"
    and "length (promote sort_columns) = length (promote sort_orders)"
  shows "(list_all (\<lambda>c. model c \<noteq> None) (promote sort_columns) \<longrightarrow>
            apply_sorting model stmt sort_columns sort_orders =
              Inr (stmt\<lparr>order_by := order_by stmt @
                     map (\<lambda>(c, order). if order = ''asc'' then Asc (the (model c))
                                        else Desc (the (model c)))
                         (zip (promote sort_columns) (promote sort_orders))\<rparr>)) \<and>
         (\<forall>e. apply_sorting model stmt sort_columns sort_orders = Inl e \<longrightarrow>
              (\<exists>c \<in> set (promote sort_columns). model c = None \<and> e = ModelColumnError c))"
proof -
  have run: "apply_sorting model stmt sort_columns sort_orders =
               order_loop model stmt (zip (promote sort_columns) (promote sort_orders))"
    using assms by (simp add: apply_sorting_def Let_def)
  have a: "list_all (\<lambda>c. model c \<noteq> None) (promote sort_columns) \<longrightarrow>
            apply_sorting model stmt sort_columns sort_orders =
              Inr (stmt\<lparr>order_by := order_by stmt @
                     map (\<lambda>(c, order). if order = ''asc'' then Asc (the (model c))
                                        else Desc (the (model c)))
                         (zip (promote sort_columns) (promote sort_orders))\<rparr>)"
    using run order_loop_resolved[OF zip_resolved, where model1=model
            and cols1="promote sort_columns" and orders1="promote sort_orders" and stmt=stmt]
    by simp
  have b: "\<forall>e. apply_sorting model stmt sort_columns sort_orders = Inl e \<longrightarrow>
              (\<exists>c \<in> set (promote sort_columns). model c = None \<and> e = ModelColumnError c)"
  proof (intro allI impI)
    fix e assume "apply_sorting model stmt sort_columns sort_orders = Inl e"
    with run have "order_loop model stmt (zip (promote sort_columns) (promote sort_orders)) = Inl e"
      by simp
    from order_loop_error[OF this] obtain c where
      c: "c \<in> fst ` set (zip (promote sort_columns) (promote sort_orders))"
         "model c = None \<and> e = ModelColumnError c" by blast
    from c(1) have "c \<in> set (promote sort_columns)" by (auto dest: set_zip_leftD)
    with c(2) show "\<exists>c \<in> set (promote sort_columns). model c = None \<and> e = ModelColumnError c"
      by blast
  qed
  from a b show ?thesis by blast
qed

text \<open>
  The directions \<open>asc\<close>, \<open>desc\<close>, \<open>ASC\<close> and \<open>ascending\<close> give an ascending
  clause followed by three descending ones.
\<close>

theorem C10_direction_witness:
  "truthy (SortList [''f'', ''a__b'', ''f'', ''f'']) \<and>
   truthy (SortList [''asc'', ''desc'', ''ASC'', ''ascending'']) \<and>
   list_all (\<lambda>c. example_model c \<noteq> None) (promote (SortList [''f'', ''a__b'', ''f'', ''f''])) \<and>
   apply_sorting example_model \<lparr>whereclause = [], order_by = []\<rparr>
       (SortList [''f'', ''a__b'', ''f'', ''f''])
       (SortList [''asc'', ''desc'', ''ASC'', ''ascending'']) =
     Inr \<lparr>whereclause = [],
          order_by = [Asc (Column ''f''), Desc (Column ''a__b''), Desc (Column ''f''),
                      Desc (Column ''f'')]\<rparr>"
proof -
  let ?s = "\<lparr>whereclause = [], order_by = []\<rparr>"
  have t: "truthy (SortList [''f'', ''a__b'', ''f'', ''f''])"
     "truthy (SortList [''asc'', ''desc'', ''ASC'', ''ascending''])" by simp_all
  have l: "length (promote (SortList [''f'', ''a__b'', ''f'', ''f''])) =
           length (promote (SortList [''asc'', ''desc'', ''ASC'', ''ascending'']))" by simp
  have r: "list_all (\<lambda>c. example_model c \<noteq> None) (promote (SortList [''f'', ''a__b'', ''f'', ''f'']))"
    by (simp add: example_model_def)
  have "apply_sorting example_model ?s (SortList [''f'', ''a__b'', ''f'', ''f''])
       (SortList [''asc'', ''desc'', ''ASC'', ''ascending'']) =
     Inr \<lparr>whereclause = [],
          order_by = [Asc (Column ''f''), Desc (Column ''a__b''), Desc (Column ''f''),
                      Desc (Column ''f'')]\<rparr>"
    using C10_direction_not_validated[OF t l, where model=example_model and stmt="?s"] r
    by (simp add: example_model_def)
  with t r show ?thesis by blast
qed

text \<open>
  Claim C10 as stated fails on the empty direction string, which is not \<open>asc\<close>: the
  empty string is falsy, so the orders count as absent and the column gets the default
  ascending clause. A direction other than \<open>asc\<close> also produces no descending clause
  when the orders outnumber the columns (\<open>ColumnSortError\<close>), when no columns are
  given (\<open>ValueError\<close>) and when its column does not resolve
  (\<open>ModelColumnError\<close>).
\<close>

theorem C10_direction_counterexample:
  "'''' \<noteq> ''asc'' \<and>
   apply_sorting example_model \<lparr>whereclause = [], order_by = []\<rparr> (SortStr ''f'') (SortStr '''') =
     Inr \<lparr>whereclause = [], order_by = [Asc (Column ''f'')]\<rparr> \<and>
   apply_sorting example_model \<lparr>whereclause = [], order_by = []\<rparr>
       (SortList [''f'']) (SortList [''desc'', ''desc'']) =
     Inl (ColumnSortError ''The length of sort_columns and sort_orders must match.'') \<and>
   apply_sorting example_model \<lparr>whereclause = [], order_by = []\<rparr> SortNone (SortStr ''desc'') =
     Inl (ValueError ''Sort orders provided without corresponding sort columns.'') \<and>
   apply_sorting example_model \<lparr>whereclause = [], order_by = []\<rparr>
       (SortStr ''nope'') (SortStr ''desc'') =
     Inl (ModelColumnError ''nope'')"
  by (simp add: apply_sorting_def get_column_def example_model_def)

text \<open>
  Claim C1. When the filters compile and the count query reports more than one matching
  row, \<open>update_model_by_column\<close> and \<open>delete_model_by_column\<close> called with
  \<open>allow_multiple=False\<close> raise \<open>MultipleResultsError\<close>. The only statement executed
  is the count query: no update or delete statement is executed, nothing is committed, and
  the stored rows are those before the call.
\<close>

theorem C1_guard_precedes_mutation:
  assumes "parse_filters lib (crud_model self) kwargs = (ws, Inr filters)"
    and "count_scalar eng (rows session) filters = Some n" and "1 < n"
  shows "update_model_by_column lib eng self session obj False commit kwargs =
           (ws, session\<lparr>executed := executed session @ [CountStmt filters]\<rparr>,
            Inl (MultipleResultsError ''updated'' n)) \<and>
         delete_model_by_column lib eng self session False logical_deletion deleted_flag_column
             commit kwargs =
           (ws, session\<lparr>executed := executed session @ [CountStmt filters]\<rparr>,
            Inl (MultipleResultsError ''deleted'' n)) \<and>
         rows (fst (snd (update_model_by_column lib eng self session obj False commit kwargs))) =
           rows session \<and>
         rows (fst (snd (delete_model_by_column lib eng self session False logical_deletion
                           deleted_flag_column commit kwargs))) = rows session"
  using assms by (simp add: update_model_by_column_def delete_model_by_column_def count_result)

text \<open>
  With two stored rows matched, both calls raise after the count query alone, also when
  \<open>commit\<close> is set.
\<close>

theorem C1_guard_witness:
  "parse_filters example_library (crud_model example_crud) [(''f'', VInt 1)] =
     ([], Inr [Call ''__eq__'' (Column ''f'') [VInt 1]]) \<and>
   count_scalar example_engine (rows \<lparr>rows = [10, 20], executed = [], commits = 0\<rparr>)
       [Call ''__eq__'' (Column ''f'') [VInt 1]] = Some 2 \<and>
   delete_model_by_column example_library example_engine example_crud
       \<lparr>rows = [10, 20], executed = [], commits = 0\<rparr> False False ''del_flag'' True
       [(''f'', VInt 1)] =
     ([], \<lparr>rows = [10, 20], executed = [CountStmt [Call ''__eq__'' (Column ''f'') [VInt 1]]],
           commits = 0\<rparr>,
      Inl (MultipleResultsError ''deleted'' 2)) \<and>
   update_model_by_column example_library example_engine example_crud
       \<lparr>rows = [10, 20], executed = [], commits = 0\<rparr> (DictObj [(''f'', VInt 7)]) False True
       [(''f'', VInt 1)] =
     ([], \<lparr>rows = [10, 20], executed = [CountStmt [Call ''__eq__'' (Column ''f'') [VInt 1]]],
           commits = 0\<rparr>,
      Inl (MultipleResultsError ''updated'' 2))"
proof -
  let ?s = "\<lparr>rows = [10, 20], executed = [], commits = 0\<rparr> :: int list session"
  let ?fs = "[Call ''__eq__'' (Column ''f'') [VInt 1]]"
  have p: "parse_filters example_library (crud_model example_crud) [(''f'', VInt 1)] = ([], Inr ?fs)"
    by (simp add: example_crud_def example_model_def parse_filter_item_def get_column_def)
  have c: "count_scalar example_engine (rows ?s) ?fs = Some 2"
    by (simp add: example_engine_def)
  have l: "(1::int) < 2" by simp
  note w = C1_guard_precedes_mutation[OF p c l]
  have d: "delete_model_by_column example_library example_engine example_crud ?s False False ''del_flag'' True
       [(''f'', VInt 1)] =
     ([], \<lparr>rows = [10, 20], executed = [CountStmt ?fs], commits = 0\<rparr>,
      Inl (MultipleResultsError ''deleted'' 2))"
    using w[of "DictObj []" True False "''del_flag''"] by simp
  have u: "update_model_by_column example_library example_engine example_crud ?s (DictObj [(''f'', VInt 7)]) False True
       [(''f'', VInt 1)] =
     ([], \<lparr>rows = [10, 20], executed = [CountStmt ?fs], commits = 0\<rparr>,
      Inl (MultipleResultsError ''updated'' 2))"
    using w[of "DictObj [(''f'', VInt 7)]" True False "''del_flag''"] by simp
  from p c d u show ?thesis by blast
qed

text \<open>
  Claim C2. The guard's count is the scalar of the count query on the rows before the
  mutation (0 when it is null). Whenever \<open>delete_model_by_column\<close> returns, with
  physical or logical deletion, it returns that count. When the guard lets the call
  through, both functions execute the count query and then their one statement on the rows
  the count query read, and commit when asked: \<open>delete_model_by_column\<close> executes the
  delete, or the update of the flag column for a logical deletion, and returns the count;
  \<open>update_model_by_column\<close> executes the update and returns the row count the storage
  reports for that statement. \<open>delete_model\<close> executes the delete by primary key and
  returns the row count the storage reports for it.
\<close>

theorem C2_returned_counts:
  assumes "parse_filters lib (crud_model self) kwargs = (ws, Inr filters)"
  shows "snd (count eng session filters) =
           (case count_scalar eng (rows session) filters of None \<Rightarrow> 0 | Some n \<Rightarrow> n) \<and>
         (\<forall>r. snd (snd (delete_model_by_column lib eng self session allow_multiple logical_deletion
                          deleted_flag_column commit kwargs)) = Inr r \<longrightarrow>
              r = snd (count eng session filters)) \<and>
         (allow_multiple \<or> snd (count eng session filters) \<le> 1 \<longrightarrow>
            delete_model_by_column lib eng self session allow_multiple logical_deletion
                deleted_flag_column commit kwargs =
              (ws,
               commit_if_needed
                 (session\<lparr>rows :=
                            mutate eng
                              (if logical_deletion
                               then UpdateStmt filters [(deleted_flag_column, VBool True)]
                               else DeleteStmt filters)
                              (rows session),
                          executed :=
                            executed session @
                              [CountStmt filters,
                               if logical_deletion
                               then UpdateStmt filters [(deleted_flag_column, VBool True)]
                               else DeleteStmt filters]\<rparr>)
                 commit,
               Inr (snd (count eng session filters))) \<and>
            update_model_by_column lib eng self session obj allow_multiple commit kwargs =
              (ws,
               commit_if_needed
                 (session\<lparr>rows := mutate eng (UpdateStmt filters (instance_data obj)) (rows session),
                          executed :=
                            executed session @
                              [CountStmt filters, UpdateStmt filters (instance_data obj)]\<rparr>)
                 commit,
               Inr (reported_rowcount eng (UpdateStmt filters (instance_data obj)) (rows session)))) \<and>
         delete_model eng self session pk commit =
           (commit_if_needed
              (session\<lparr>rows :=
                         mutate eng (DeleteStmt [Call ''__eq__'' (primary_key self) [pk]])
                           (rows session),
                       executed :=
                         executed session @ [DeleteStmt [Call ''__eq__'' (primary_key self) [pk]]]\<rparr>)
              commit,
            Inr (reported_rowcount eng (DeleteStmt [Call ''__eq__'' (primary_key self) [pk]])
                   (rows session)))"
proof -
  have a: "snd (count eng session filters) =
           (case count_scalar eng (rows session) filters of None \<Rightarrow> 0 | Some n \<Rightarrow> n)"
    by (simp add: count_result)
  have b: "\<forall>r. snd (snd (delete_model_by_column lib eng self session allow_multiple logical_deletion
                          deleted_flag_column commit kwargs)) = Inr r \<longrightarrow>
              r = snd (count eng session filters)"
    using assms
    by (auto simp: delete_model_by_column_def count_result Let_def execute_mutation
             split: if_splits prod.splits)
  have c: "allow_multiple \<or> snd (count eng session filters) \<le> 1 \<longrightarrow>
            delete_model_by_column lib eng self session allow_multiple logical_deletion
                deleted_flag_column commit kwargs =
              (ws,
               commit_if_needed
                 (session\<lparr>rows :=
                            mutate eng
                              (if logical_deletion
                               then UpdateStmt filters [(deleted_flag_column, VBool True)]
                               else DeleteStmt filters)
                              (rows session),
                          executed :=
                            executed session @
                              [CountStmt filters,
                               if logical_deletion
                               then UpdateStmt filters [(deleted_flag_column, VBool True)]
                               else DeleteStmt filters]\<rparr>)
                 commit,
               Inr (snd (count eng session filters))) \<and>
            update_model_by_column lib eng self session obj allow_multiple commit kwargs =
              (ws,
               commit_if_needed
                 (session\<lparr>rows := mutate eng (UpdateStmt filters (instance_data obj)) (rows session),
                          executed :=
                            executed session @
                              [CountStmt filters, UpdateStmt filters (instance_data obj)]\<rparr>)
                 commit,
               Inr (reported_rowcount eng (UpdateStmt filters (instance_data obj)) (rows session)))"
    using assms
    by (auto simp: delete_model_by_column_def update_model_by_column_def count_result Let_def
                   execute_mutation split: prod.splits)
  have d: "delete_model eng self session pk commit =
           (commit_if_needed
              (session\<lparr>rows :=
                         mutate eng (DeleteStmt [Call ''__eq__'' (primary_key self) [pk]])
                           (rows session),
                       executed :=
                         executed session @ [DeleteStmt [Call ''__eq__'' (primary_key self) [pk]]]\<rparr>)
              commit,
            Inr (reported_rowcount eng (DeleteStmt [Call ''__eq__'' (primary_key self) [pk]])
                   (rows session)))"
    by (simp add: delete_model_def execute_mutation)
  from a b c d show ?thesis by blast
qed

text \<open>
  On a storage whose driver reports \<open>-1\<close> as row count, with one stored row matched:
  the deletion by filter executes the count query and the delete, commits, and returns 1;
  the logical deletion executes the count query and the update of \<open>del_flag\<close> and
  returns 1; the update by filter and the delete by primary key return \<open>-1\<close>.
\<close>

theorem C2_returned_counts_witness:
  "parse_filters example_library (crud_model example_crud) [(''f'', VInt 1)] =
     ([], Inr [Call ''__eq__'' (Column ''f'') [VInt 1]]) \<and>
   snd (count example_engine \<lparr>rows = [10], executed = [], commits = 0\<rparr>
          [Call ''__eq__'' (Column ''f'') [VInt 1]]) = 1 \<and>
   delete_model_by_column example_library example_engine example_crud
       \<lparr>rows = [10], executed = [], commits = 0\<rparr> False False ''del_flag'' True
       [(''f'', VInt 1)] =
     ([], \<lparr>rows = [],
           executed = [CountStmt [Call ''__eq__'' (Column ''f'') [VInt 1]],
                       DeleteStmt [Call ''__eq__'' (Column ''f'') [VInt 1]]],
           commits = 1\<rparr>,
      Inr 1) \<and>
   delete_model_by_column example_library example_engine example_crud
       \<lparr>rows = [10], executed = [], commits = 0\<rparr> False True ''del_flag'' False
       [(''f'', VInt 1)] =
     ([], \<lparr>rows = [10],
           executed = [CountStmt [Call ''__eq__'' (Column ''f'') [VInt 1]],
                       UpdateStmt [Call ''__eq__'' (Column ''f'') [VInt 1]]
                         [(''del_flag'', VBool True)]],
           commits = 0\<rparr>,
      Inr 1) \<and>
   update_model_by_column example_library example_engine example_crud
       \<lparr>rows = [10], executed = [], commits = 0\<rparr> (DictObj [(''f'', VInt 7)]) False False
       [(''f'', VInt 1)] =
     ([], \<lparr>rows = [10],
           executed = [CountStmt [Call ''__eq__'' (Column ''f'') [VInt 1]],
                       UpdateStmt [Call ''__eq__'' (Column ''f'') [VInt 1]] [(''f'', VInt 7)]],
           commits = 0\<rparr>,
      Inr (- 1)) \<and>
   delete_model example_engine example_crud
       \<lparr>rows = [10], executed = [], commits = 0\<rparr> (VInt 3) False =
     (\<lparr>rows = [], executed = [DeleteStmt [Call ''__eq__'' (Column ''id'') [VInt 3]]],
       commits = 0\<rparr>,
      Inr (- 1))"
proof -
  let ?s = "\<lparr>rows = [10], executed = [], commits = 0\<rparr> :: int list session"
  let ?fs = "[Call ''__eq__'' (Column ''f'') [VInt 1]]"
  have p: "parse_filters example_library (crud_model example_crud) [(''f'', VInt 1)] = ([], Inr ?fs)"
    by (simp add: example_crud_def example_model_def parse_filter_item_def get_column_def)
  have cs: "count_scalar example_engine (rows ?s) ?fs = Some 1"
    by (simp add: example_engine_def)
  have n: "snd (count example_engine ?s ?fs) = 1"
    using C2_returned_counts[OF p, where eng=example_engine and session="?s", THEN conjunct1] cs
    by simp
  have d1: "delete_model_by_column example_library example_engine example_crud ?s False False
              ''del_flag'' True [(''f'', VInt 1)] =
     ([], \<lparr>rows = [], executed = [CountStmt ?fs, DeleteStmt ?fs], commits = 1\<rparr>, Inr 1)"
    using C2_returned_counts[OF p, where eng=example_engine and session="?s"
            and allow_multiple=False and logical_deletion=False and commit=True
            and deleted_flag_column="''del_flag''",
            THEN conjunct2, THEN conjunct2, THEN conjunct1] n
    by (simp add: example_engine_def commit_if_needed_def)
  have d2: "delete_model_by_column example_library example_engine example_crud ?s False True
              ''del_flag'' False [(''f'', VInt 1)] =
     ([], \<lparr>rows = [10],
           executed = [CountStmt ?fs, UpdateStmt ?fs [(''del_flag'', VBool True)]],
           commits = 0\<rparr>, Inr 1)"
    using C2_returned_counts[OF p, where eng=example_engine and session="?s"
            and allow_multiple=False and logical_deletion=True and commit=False
            and deleted_flag_column="''del_flag''",
            THEN conjunct2, THEN conjunct2, THEN conjunct1] n
    by (simp add: example_engine_def commit_if_needed_def)
  have u: "update_model_by_column example_library example_engine example_crud ?s
              (DictObj [(''f'', VInt 7)]) False False [(''f'', VInt 1)] =
     ([], \<lparr>rows = [10], executed = [CountStmt ?fs, UpdateStmt ?fs [(''f'', VInt 7)]],
           commits = 0\<rparr>, Inr (- 1))"
    using C2_returned_counts[OF p, where eng=example_engine and session="?s"
            and allow_multiple=False and commit=False and obj="DictObj [(''f'', VInt 7)]",
            THEN conjunct2, THEN conjunct2, THEN conjunct1] n
    by (simp add: example_engine_def commit_if_needed_def)
  have dm: "delete_model example_engine example_crud ?s (VInt 3) False =
     (\<lparr>rows = [], executed = [DeleteStmt [Call ''__eq__'' (Column ''id'') [VInt 3]]],
       commits = 0\<rparr>, Inr (- 1))"
    using C2_returned_counts[OF p, where eng=example_engine and session="?s"
            and commit=False and pk="VInt 3",
            THEN conjunct2, THEN conjunct2, THEN conjunct2]
    by (simp add: example_engine_def example_crud_def commit_if_needed_def)
  from p n d1 d2 u dm show ?thesis by blast
qed

end
